theory Spec2Isabelle
  imports Complex_Main "HOL-Library.AList"
begin

section \<open>Python values, exceptions and external objects\<close>

text \<open>
  The broadcaster of \<^verbatim>\<open>src/main.py\<close> receives objects of an external decoder and
  reads their attributes dynamically, so an attribute holds an arbitrary Python value.
  The values the code can tell apart are modelled here: \<^verbatim>\<open>None\<close>, booleans, unbounded
  integers, floats (finite, or one of \<^verbatim>\<open>inf\<close>, \<^verbatim>\<open>-inf\<close>, \<^verbatim>\<open>nan\<close>), strings, lists
  (the unhashable case) and opaque objects (hashable by identity, not serialisable as
  JSON, with a \<^verbatim>\<open>__str__\<close> that may raise). The interpreter's optional limit on the
  number of digits of an integer that is converted to a string is not modelled.
\<close>

text \<open>
  The exceptions the modelled code can raise. \<open>Thrown n is_exception str_raises\<close> is an
  exception object made by the external object's own code: whether its class derives from
  \<^verbatim>\<open>Exception\<close> (rather than from \<^verbatim>\<open>BaseException\<close> only), and what converting it to a
  string raises, if anything.
\<close>

datatype exn =
    TypeError
  | ValueError
  | IndexError
  | OverflowError
  | ZeroDivisionError
  | Thrown nat bool "exn option"

fun is_Exception :: "exn \<Rightarrow> bool" where
  "is_Exception (Thrown n is_exception str_raises) = is_exception"
| "is_Exception _ = True"

fun exn_str_raises :: "exn \<Rightarrow> exn option" where
  "exn_str_raises (Thrown n is_exception str_raises) = str_raises"
| "exn_str_raises _ = None"

datatype nonfinite = PosInf | NegInf | NaN

text \<open>A Python float: a finite number, or one of the three others.\<close>

datatype fval = Finite real | NonFinite nonfinite

datatype pyval =
    PNone
  | PBool bool
  | PInt int
  | PFloat real
  | PNonFinite nonfinite
  | PStr string
  | PList "pyval list"
  | PObj nat "exn option"

text \<open>
  Reading one attribute of the external object: it is missing (\<^verbatim>\<open>AttributeError\<close>, which
  \<^verbatim>\<open>hasattr\<close> and three-argument \<^verbatim>\<open>getattr\<close> absorb), it has a value, or the read raises.
\<close>

datatype attr = Absent | Has pyval | Raises exn

type_synonym tuio_object = "string \<Rightarrow> attr"

text \<open>\<^verbatim>\<open>getattr(obj, name, default)\<close>.\<close>

definition getattr_default :: "tuio_object \<Rightarrow> string \<Rightarrow> pyval \<Rightarrow> exn + pyval" where
  "getattr_default obj name dflt =
     (case obj name of Absent \<Rightarrow> Inr dflt | Has v \<Rightarrow> Inr v | Raises e \<Rightarrow> Inl e)"

text \<open>
  The numeric value of a Python number (\<^verbatim>\<open>bool\<close> is a subclass of \<^verbatim>\<open>int\<close>); arithmetic
  and the format code \<^verbatim>\<open>.3f\<close> raise on everything else.
\<close>

fun num_of :: "pyval \<Rightarrow> real option" where
  "num_of (PBool b) = Some (if b then 1 else 0)"
| "num_of (PInt i) = Some (of_int i)"
| "num_of (PFloat r) = Some r"
| "num_of _ = None"

text \<open>\<^verbatim>\<open>v == n\<close> for an integer constant \<open>n\<close>: numbers compare by value, nothing else is equal.\<close>

definition py_eq_int :: "pyval \<Rightarrow> int \<Rightarrow> bool" where
  "py_eq_int v n = (num_of v = Some (of_int n))"

text \<open>Whether \<^verbatim>\<open>json.dumps\<close> accepts the value (it raises \<^verbatim>\<open>TypeError\<close> otherwise).\<close>

fun json_ok :: "pyval \<Rightarrow> bool" where
  "json_ok (PList vs) = list_all json_ok vs"
| "json_ok (PObj n str_raises) = False"
| "json_ok _ = True"

text \<open>
  What \<^verbatim>\<open>str(v)\<close> raises, if anything: only an opaque object's own \<^verbatim>\<open>__str__\<close> can, also
  as an element of a list.
\<close>

fun str_raises :: "pyval \<Rightarrow> exn option" where
  "str_raises (PObj n r) = r"
| "str_raises (PList []) = None"
| "str_raises (PList (v # vs)) =
     (case str_raises v of Some e \<Rightarrow> Some e | None \<Rightarrow> str_raises (PList vs))"
| "str_raises _ = None"

text \<open>
  The key under which a \<^verbatim>\<open>dict\<close> files a value: numbers that compare equal
  (\<^verbatim>\<open>1\<close>, \<^verbatim>\<open>1.0\<close>, \<^verbatim>\<open>True\<close>) are one key, a list is unhashable and raises \<^verbatim>\<open>TypeError\<close>.
  A NaN key is found again through the identity of the float object; the model takes the
  NaN of one session to be that one object.
\<close>

fun dict_key :: "pyval \<Rightarrow> exn + pyval" where
  "dict_key (PBool b) = Inr (PInt (if b then 1 else 0))"
| "dict_key (PFloat r) = (if of_int \<lfloor>r\<rfloor> = r then Inr (PInt \<lfloor>r\<rfloor>) else Inr (PFloat r))"
| "dict_key (PList vs) = Inl TypeError"
| "dict_key v = Inr v"

section \<open>Configuration\<close>

definition ROTATE_SYMBOL :: int where "ROTATE_SYMBOL = 0"
definition SELECT_SYMBOL :: int where "SELECT_SYMBOL = 1"
definition BACK_SYMBOL :: int where "BACK_SYMBOL = 12"

definition MEDICATION_SYMBOLS :: "(int \<times> string) list" where
  "MEDICATION_SYMBOLS =
     [(2, ''Paracetamol''), (3, ''Amoxicillin''), (4, ''Aspirin''), (5, ''Metformin''),
      (6, ''Lisinopril''), (7, ''Atorvastatin''), (8, ''Omeprazole''), (9, ''Salbutamol''),
      (10, ''Ibuprofen''), (11, ''Vitamin D'')]"

definition NUM_WHEEL_SECTORS :: int where
  "NUM_WHEEL_SECTORS = int (length MEDICATION_SYMBOLS)"

definition PROXIMITY_THRESHOLD :: real where "PROXIMITY_THRESHOLD = 0.08"

section \<open>Float arithmetic\<close>

text \<open>
  Python floats are IEEE 754 doubles, and every operation rounds its exact result to the
  nearest double, ties to the even mantissa. \<open>round_double x\<close> is that rounding of the real
  number \<open>x\<close>: a double is \<open>m * 2 ^ e\<close> with \<open>\<bar>m\<bar> < 2 ^ 53\<close> and \<open>e \<ge> - 1074\<close>, and a
  result of magnitude \<open>2 ^ 1024\<close> or more overflows to an infinity. Signed zeros are
  not told apart.
\<close>

definition round_half_even :: "real \<Rightarrow> int" where
  "round_half_even x =
     (let f = \<lfloor>x\<rfloor>; d = x - of_int f
      in if d < 1 / 2 then f else if 1 / 2 < d then f + 1 else if even f then f else f + 1)"

definition double_exponent :: "real \<Rightarrow> int" where
  "double_exponent x = max (- 1074) (\<lfloor>log 2 \<bar>x\<bar>\<rfloor> - 52)"

definition round_double :: "real \<Rightarrow> fval" where
  "round_double x =
     (if x = 0 then Finite 0
      else
        (let e = double_exponent x;
             r = of_int (round_half_even (x / 2 powr of_int e)) * 2 powr of_int e
         in if 2 ^ 1024 \<le> \<bar>r\<bar> then NonFinite (if 0 < r then PosInf else NegInf)
            else Finite r))"

text \<open>
  \<^verbatim>\<open>float(i)\<close> for an integer, as the arithmetic and the format code \<^verbatim>\<open>.3f\<close> do it: the
  nearest double, \<^verbatim>\<open>OverflowError\<close> when there is none.
\<close>

definition float_of_int :: "int \<Rightarrow> exn + real" where
  "float_of_int i =
     (case round_double (of_int i) of Finite r \<Rightarrow> Inr r | NonFinite s \<Rightarrow> Inl OverflowError)"

text \<open>The operand of a float operation: numbers convert, anything else raises.\<close>

fun float_of :: "pyval \<Rightarrow> exn + fval" where
  "float_of (PBool b) = Inr (Finite (if b then 1 else 0))"
| "float_of (PInt i) = (case float_of_int i of Inl e \<Rightarrow> Inl e | Inr r \<Rightarrow> Inr (Finite r))"
| "float_of (PFloat r) = Inr (Finite r)"
| "float_of (PNonFinite s) = Inr (NonFinite s)"
| "float_of _ = Inl TypeError"

text \<open>\<^verbatim>\<open>math.pi\<close> is the double nearest to \<open>\<pi>\<close>; doubling it is exact.\<close>

definition MATH_PI :: real where
  "MATH_PI = 884279719003555 / 2 ^ 48"

definition TWO_PI :: real where
  "TWO_PI = 2 * MATH_PI"

text \<open>\<^verbatim>\<open>int(r)\<close> truncates towards zero.\<close>

definition py_int_trunc :: "real \<Rightarrow> int" where
  "py_int_trunc r = (if 0 \<le> r then \<lfloor>r\<rfloor> else \<lceil>r\<rceil>)"

text \<open>
  \<^verbatim>\<open>x % y\<close> on floats, for a divisor \<open>y\<close> that is finite and not zero, as the interpreter
  computes it: the C \<^verbatim>\<open>fmod\<close>, which is exact and has the sign of \<open>x\<close>, and, when its sign
  differs from that of \<open>y\<close>, the rounded sum with \<open>y\<close>. An infinite or NaN \<open>x\<close> gives NaN.
\<close>

definition c_fmod :: "real \<Rightarrow> real \<Rightarrow> real" where
  "c_fmod x y = x - y * of_int (py_int_trunc (x / y))"

definition py_float_mod :: "fval \<Rightarrow> real \<Rightarrow> fval" where
  "py_float_mod a y =
     (case a of
        Finite x \<Rightarrow>
          (let m = c_fmod x y
           in if m \<noteq> 0 \<and> ((y < 0) \<noteq> (m < 0)) then round_double (m + y) else Finite m)
      | NonFinite s \<Rightarrow> NonFinite NaN)"

text \<open>\<^verbatim>\<open>a / y\<close> and \<^verbatim>\<open>a * y\<close> for a finite \<open>y\<close>, with \<open>y \<noteq> 0\<close> for the division.\<close>

definition py_float_div :: "fval \<Rightarrow> real \<Rightarrow> fval" where
  "py_float_div a y =
     (case a of
        Finite x \<Rightarrow> round_double (x / y)
      | NonFinite NaN \<Rightarrow> NonFinite NaN
      | NonFinite PosInf \<Rightarrow> NonFinite (if 0 < y then PosInf else NegInf)
      | NonFinite NegInf \<Rightarrow> NonFinite (if 0 < y then NegInf else PosInf))"

definition py_float_mul :: "fval \<Rightarrow> real \<Rightarrow> fval" where
  "py_float_mul a y =
     (case a of
        Finite x \<Rightarrow> round_double (x * y)
      | NonFinite NaN \<Rightarrow> NonFinite NaN
      | NonFinite PosInf \<Rightarrow>
          NonFinite (if y = 0 then NaN else if 0 < y then PosInf else NegInf)
      | NonFinite NegInf \<Rightarrow>
          NonFinite (if y = 0 then NaN else if 0 < y then NegInf else PosInf))"

text \<open>\<^verbatim>\<open>int(a)\<close> for a float.\<close>

definition py_int_of_float :: "fval \<Rightarrow> exn + int" where
  "py_int_of_float a =
     (case a of
        Finite r \<Rightarrow> Inr (py_int_trunc r)
      | NonFinite NaN \<Rightarrow> Inl ValueError
      | NonFinite s \<Rightarrow> Inl OverflowError)"

text \<open>
  The arithmetic of the proximity test, lines 202 to 205. Subtraction is exact on two
  integers and a float operation otherwise; \<^verbatim>\<open>math.hypot\<close> converts both arguments.
  On finite operands the difference and the distance are taken exactly: their last-digit
  rounding is not modelled.
\<close>

fun int_of :: "pyval \<Rightarrow> int option" where
  "int_of (PBool b) = Some (if b then 1 else 0)"
| "int_of (PInt i) = Some i"
| "int_of _ = None"

fun is_number :: "pyval \<Rightarrow> bool" where
  "is_number (PBool b) = True"
| "is_number (PInt i) = True"
| "is_number (PFloat r) = True"
| "is_number (PNonFinite s) = True"
| "is_number _ = False"

fun pyval_of_fval :: "fval \<Rightarrow> pyval" where
  "pyval_of_fval (Finite r) = PFloat r"
| "pyval_of_fval (NonFinite s) = PNonFinite s"

fun float_sub :: "fval \<Rightarrow> fval \<Rightarrow> fval" where
  "float_sub (Finite a) (Finite b) = Finite (a - b)"
| "float_sub (NonFinite NaN) b = NonFinite NaN"
| "float_sub a (NonFinite NaN) = NonFinite NaN"
| "float_sub (NonFinite PosInf) (NonFinite PosInf) = NonFinite NaN"
| "float_sub (NonFinite NegInf) (NonFinite NegInf) = NonFinite NaN"
| "float_sub (NonFinite s) b = NonFinite s"
| "float_sub (Finite a) (NonFinite PosInf) = NonFinite NegInf"
| "float_sub (Finite a) (NonFinite NegInf) = NonFinite PosInf"

definition py_sub :: "pyval \<Rightarrow> pyval \<Rightarrow> exn + pyval" where
  "py_sub a b =
     (if \<not> is_number a \<or> \<not> is_number b then Inl TypeError
      else
        (case (int_of a, int_of b) of
           (Some i, Some j) \<Rightarrow> Inr (PInt (i - j))
         | _ \<Rightarrow>
             (case float_of a of
                Inl e \<Rightarrow> Inl e
              | Inr x \<Rightarrow>
                  (case float_of b of
                     Inl e \<Rightarrow> Inl e
                   | Inr y \<Rightarrow> Inr (pyval_of_fval (float_sub x y))))))"

fun float_hypot :: "fval \<Rightarrow> fval \<Rightarrow> fval" where
  "float_hypot (Finite a) (Finite b) = Finite (sqrt (a\<^sup>2 + b\<^sup>2))"
| "float_hypot (NonFinite PosInf) b = NonFinite PosInf"
| "float_hypot (NonFinite NegInf) b = NonFinite PosInf"
| "float_hypot a (NonFinite PosInf) = NonFinite PosInf"
| "float_hypot a (NonFinite NegInf) = NonFinite PosInf"
| "float_hypot a b = NonFinite NaN"

definition py_hypot :: "pyval \<Rightarrow> pyval \<Rightarrow> exn + fval" where
  "py_hypot dx dy =
     (case float_of dx of
        Inl e \<Rightarrow> Inl e
      | Inr x \<Rightarrow>
          (case float_of dy of
             Inl e \<Rightarrow> Inl e
           | Inr y \<Rightarrow> Inr (float_hypot x y)))"

text \<open>\<^verbatim>\<open>dist < t\<close>: false for NaN.\<close>

fun float_less :: "fval \<Rightarrow> real \<Rightarrow> bool" where
  "float_less (Finite r) t = (r < t)"
| "float_less (NonFinite NegInf) t = True"
| "float_less (NonFinite s) t = False"

section \<open>The sector of an angle\<close>

text \<open>
  Lines 180 to 182 of \<^verbatim>\<open>process_logic_and_broadcast\<close>, with the number of sectors as
  a parameter (the program passes \<open>NUM_WHEEL_SECTORS\<close>):
  \<^verbatim>\<open>theta = angle % (2 * math.pi)\<close>, \<^verbatim>\<open>frac = theta / (2 * math.pi)\<close>,
  \<^verbatim>\<open>sector = int(frac * N) % N\<close>. The product converts \<open>N\<close> to a float first.
\<close>

definition wheel_theta :: "fval \<Rightarrow> fval" where
  "wheel_theta a = py_float_mod a TWO_PI"

definition wheel_frac :: "fval \<Rightarrow> fval" where
  "wheel_frac theta = py_float_div theta TWO_PI"

definition sector_of_frac :: "int \<Rightarrow> fval \<Rightarrow> exn + int" where
  "sector_of_frac n fr =
     (case float_of_int n of
        Inl e \<Rightarrow> Inl e
      | Inr nf \<Rightarrow>
          (case py_int_of_float (py_float_mul fr nf) of
             Inl e \<Rightarrow> Inl e
           | Inr i \<Rightarrow> if n = 0 then Inl ZeroDivisionError else Inr (i mod n)))"

definition wheel_sector :: "int \<Rightarrow> fval \<Rightarrow> exn + int" where
  "wheel_sector n a = sector_of_frac n (wheel_frac (wheel_theta a))"

section \<open>Records, messages and the shared state\<close>

text \<open>The dictionary \<^verbatim>\<open>record\<close> that \<^verbatim>\<open>_handle_obj\<close> builds (lines 129 to 136).\<close>

record tuio_record =
  rec_event :: string
  rec_symbol_id :: pyval
  rec_session_id :: pyval
  rec_x :: pyval
  rec_y :: pyval
  rec_angle :: pyval

text \<open>
  The dictionaries handed to \<^verbatim>\<open>broadcast\<close>, one constructor for each \<^verbatim>\<open>"type"\<close>:
  \<^verbatim>\<open>tuio_obj\<close> (payload), \<^verbatim>\<open>medication_selected\<close> (medication, symbol_id),
  \<^verbatim>\<open>wheel_open\<close> (x, y), \<^verbatim>\<open>wheel_hover\<close> (sector, angle, x, y, medication),
  \<^verbatim>\<open>wheel_select_confirm\<close> (sector, medication) and \<^verbatim>\<open>back_pressed\<close>.
  A line written to a socket is represented by the dictionary it encodes.
\<close>

datatype message =
    TuioObj tuio_record
  | MedicationSelected string pyval
  | WheelOpen pyval pyval
  | WheelHover int fval pyval pyval string
  | WheelSelectConfirm int string
  | BackPressed

text \<open>The calls of \<^verbatim>\<open>logger\<close>, by level and place, with the values they format.\<close>

datatype log_entry =
    Warn_no_marker_id
  | Info_tuio tuio_record
  | Info_direct_selection string pyval
  | Info_rotate_detected
  | Info_rotate_sector fval int string
  | Info_selection_confirmed string int
  | Info_back_pressed
  | Error_handling exn

type_synonym socket = nat

text \<open>
  The module's globals \<^verbatim>\<open>clients\<close> and \<^verbatim>\<open>latest_objects\<close> (a \<^verbatim>\<open>dict\<close>, kept in
  insertion order), and the world they act on: the lines delivered to each socket, the
  sockets that were closed, the sockets whose \<^verbatim>\<open>sendall\<close> raises, and the log.
\<close>

record world =
  clients :: "socket list"
  latest_objects :: "(pyval \<times> tuio_record) list"
  sent :: "(socket \<times> message) list"
  closed_socks :: "socket set"
  broken :: "socket set"
  logged :: "log_entry list"

text \<open>
  A statement either completes or raises; the state changes made before the exception
  stay. \<open>and_then\<close> runs the next statement only when nothing was raised.
\<close>

type_synonym outcome = "exn option \<times> world"

definition and_then :: "outcome \<Rightarrow> (world \<Rightarrow> outcome) \<Rightarrow> outcome" where
  "and_then r f = (case r of (None, w) \<Rightarrow> f w | (Some e, w) \<Rightarrow> (Some e, w))"

definition add_log :: "log_entry \<Rightarrow> world \<Rightarrow> world" where
  "add_log l w = w\<lparr>logged := logged w @ [l]\<rparr>"

section \<open>The Broadcast Hub\<close>

fun message_json_ok :: "message \<Rightarrow> bool" where
  "message_json_ok (TuioObj r) =
     (json_ok (rec_symbol_id r) \<and> json_ok (rec_session_id r) \<and> json_ok (rec_x r)
      \<and> json_ok (rec_y r) \<and> json_ok (rec_angle r))"
| "message_json_ok (MedicationSelected med sid) = json_ok sid"
| "message_json_ok (WheelOpen px py) = (json_ok px \<and> json_ok py)"
| "message_json_ok (WheelHover sector theta px py med) = (json_ok px \<and> json_ok py)"
| "message_json_ok (WheelSelectConfirm sector med) = True"
| "message_json_ok BackPressed = True"

text \<open>\<^verbatim>\<open>client_socket.sendall(data)\<close> raises on a broken or closed socket.\<close>

definition sendall_fails :: "world \<Rightarrow> socket \<Rightarrow> bool" where
  "sendall_fails w c = (c \<in> broken w \<or> c \<in> closed_socks w)"

text \<open>The first loop of \<^verbatim>\<open>broadcast\<close> (lines 79 to 83): send, or note the socket as dead.\<close>

fun send_loop :: "message \<Rightarrow> socket list \<Rightarrow> socket list \<Rightarrow> world \<Rightarrow> socket list \<times> world" where
  "send_loop data [] dead w = (dead, w)"
| "send_loop data (c # cs) dead w =
     (if sendall_fails w c then send_loop data cs (dead @ [c]) w
      else send_loop data cs dead (w\<lparr>sent := sent w @ [(c, data)]\<rparr>))"

text \<open>
  The second loop (lines 84 and 85): \<^verbatim>\<open>clients.remove(dead_client)\<close> removes the first
  occurrence and raises \<^verbatim>\<open>ValueError\<close> when there is none.
\<close>

fun remove_loop :: "socket list \<Rightarrow> socket list \<Rightarrow> exn option \<times> socket list" where
  "remove_loop [] cl = (None, cl)"
| "remove_loop (d # ds) cl =
     (if d \<in> set cl then remove_loop ds (remove1 d cl) else (Some ValueError, cl))"

definition broadcast :: "message \<Rightarrow> world \<Rightarrow> outcome" where
  "broadcast obj w =
     (if \<not> message_json_ok obj then (Some TypeError, w)
      else (case send_loop obj (clients w) [] w of
              (dead, w1) \<Rightarrow>
                (case remove_loop dead (clients w1) of
                   (r, cl) \<Rightarrow> (r, w1\<lparr>clients := cl\<rparr>))))"

text \<open>
  Registration is line 338 of \<^verbatim>\<open>tcp_acceptor\<close>; unregistration is the \<^verbatim>\<open>finally\<close> block of
  \<^verbatim>\<open>client_reader_thread\<close> (lines 308 to 312), which also closes the socket.
\<close>

definition tcp_acceptor_register :: "socket \<Rightarrow> world \<Rightarrow> world" where
  "tcp_acceptor_register conn w = w\<lparr>clients := clients w @ [conn]\<rparr>"

definition client_reader_finally :: "socket \<Rightarrow> world \<Rightarrow> world" where
  "client_reader_finally conn w =
     (let w1 = (if conn \<in> set (clients w) then w\<lparr>clients := remove1 conn (clients w)\<rparr> else w)
      in w1\<lparr>closed_socks := insert conn (closed_socks w1)\<rparr>)"

section \<open>The Selection Engine\<close>

text \<open>
  \<^verbatim>\<open>sid in MEDICATION_SYMBOLS\<close> together with \<^verbatim>\<open>MEDICATION_SYMBOLS[sid]\<close>: the name when
  the key is there; hashing a list raises.
\<close>

definition medication_lookup :: "pyval \<Rightarrow> exn + string option" where
  "medication_lookup sid =
     (case dict_key sid of
        Inl e \<Rightarrow> Inl e
      | Inr (PInt k) \<Rightarrow> Inr (map_of MEDICATION_SYMBOLS k)
      | Inr _ \<Rightarrow> Inr None)"

text \<open>\<^verbatim>\<open>list(MEDICATION_SYMBOLS.values())[sector]\<close>, with Python's indexing.\<close>

definition list_index :: "'a list \<Rightarrow> int \<Rightarrow> exn + 'a" where
  "list_index xs i =
     (if 0 \<le> i \<and> i < int (length xs) then Inr (xs ! nat i)
      else if i < 0 \<and> - int (length xs) \<le> i then Inr (xs ! nat (int (length xs) + i))
      else Inl IndexError)"

definition medication_values :: "string list" where
  "medication_values = map snd MEDICATION_SYMBOLS"

text \<open>Lines 164 to 171: a medication token placed on the table.\<close>

definition plb_direct :: "tuio_record \<Rightarrow> world \<Rightarrow> outcome" where
  "plb_direct record w =
     (case medication_lookup (rec_symbol_id record) of
        Inl e \<Rightarrow> (Some e, w)
      | Inr None \<Rightarrow> (None, w)
      | Inr (Some med_name) \<Rightarrow>
          if rec_event record = ''add''
          then broadcast (MedicationSelected med_name (rec_symbol_id record))
                 (add_log (Info_direct_selection med_name (rec_symbol_id record)) w)
          else (None, w))"

text \<open>Lines 174 to 176: the rotate token appears.\<close>

definition plb_open :: "tuio_record \<Rightarrow> world \<Rightarrow> outcome" where
  "plb_open record w =
     (if py_eq_int (rec_symbol_id record) ROTATE_SYMBOL \<and> rec_event record = ''add''
      then broadcast (WheelOpen (rec_x record) (rec_y record)) (add_log Info_rotate_detected w)
      else (None, w))"

text \<open>The body of the loop of lines 200 to 212, for one object of the snapshot.\<close>

definition confirm_one :: "tuio_record \<Rightarrow> int \<Rightarrow> tuio_record \<Rightarrow> world \<Rightarrow> outcome" where
  "confirm_one record sector srec w =
     (if py_eq_int (rec_symbol_id srec) SELECT_SYMBOL then
        (case py_sub (rec_x srec) (rec_x record) of
           Inl e \<Rightarrow> (Some e, w)
         | Inr dx \<Rightarrow>
             (case py_sub (rec_y srec) (rec_y record) of
                Inl e \<Rightarrow> (Some e, w)
              | Inr dy \<Rightarrow>
                  (case py_hypot dx dy of
                     Inl e \<Rightarrow> (Some e, w)
                   | Inr distance \<Rightarrow>
                       if float_less distance PROXIMITY_THRESHOLD then
                         (case list_index medication_values sector of
                            Inl e \<Rightarrow> (Some e, w)
                          | Inr selected_med \<Rightarrow>
                              broadcast (WheelSelectConfirm sector selected_med)
                                (add_log (Info_selection_confirmed selected_med sector) w))
                       else (None, w))))
      else (None, w))"

fun confirm_scan :: "tuio_record \<Rightarrow> int \<Rightarrow> tuio_record list \<Rightarrow> world \<Rightarrow> outcome" where
  "confirm_scan record sector [] w = (None, w)"
| "confirm_scan record sector (srec # rest) w =
     and_then (confirm_one record sector srec w) (confirm_scan record sector rest)"

text \<open>Lines 178 to 212: hover, then the scan of a snapshot of the registry.\<close>

definition plb_wheel :: "tuio_record \<Rightarrow> world \<Rightarrow> outcome" where
  "plb_wheel record w =
     (if py_eq_int (rec_symbol_id record) ROTATE_SYMBOL
         \<and> (rec_event record = ''add'' \<or> rec_event record = ''update'') then
        (case float_of (rec_angle record) of
           Inl e \<Rightarrow> (Some e, w)
         | Inr a \<Rightarrow>
             (let theta = wheel_theta a in
              case sector_of_frac NUM_WHEEL_SECTORS (wheel_frac theta) of
                Inl e \<Rightarrow> (Some e, w)
              | Inr sector \<Rightarrow>
                  (case list_index medication_values sector of
                     Inl e \<Rightarrow> (Some e, w)
                   | Inr medication_name \<Rightarrow>
                       and_then
                         (broadcast
                            (WheelHover sector theta (rec_x record) (rec_y record) medication_name)
                            (add_log (Info_rotate_sector theta sector medication_name) w))
                         (\<lambda>w'. confirm_scan record sector (map snd (latest_objects w')) w'))))
      else (None, w))"

text \<open>Lines 215 to 217: the back token.\<close>

definition plb_back :: "tuio_record \<Rightarrow> world \<Rightarrow> outcome" where
  "plb_back record w =
     (if py_eq_int (rec_symbol_id record) BACK_SYMBOL \<and> rec_event record = ''add''
      then broadcast BackPressed (add_log Info_back_pressed w)
      else (None, w))"

definition process_logic_and_broadcast :: "tuio_record \<Rightarrow> world \<Rightarrow> outcome" where
  "process_logic_and_broadcast record w =
     and_then (broadcast (TuioObj record) w) (\<lambda>w.
     and_then (plb_direct record w) (\<lambda>w.
     and_then (plb_open record w) (\<lambda>w.
     and_then (plb_wheel record w) (plb_back record))))"

section \<open>The Ingestion Adapter\<close>

definition possible_id_attrs :: "string list" where
  "possible_id_attrs = [''fiducial_id'', ''symbol_id'', ''class_id'', ''pattern_id'']"

text \<open>
  Lines 108 to 115: the first attribute that \<^verbatim>\<open>hasattr\<close> finds gives the symbol id,
  \<^verbatim>\<open>None\<close> when there is none.
\<close>

fun find_marker_id :: "tuio_object \<Rightarrow> string list \<Rightarrow> exn + pyval" where
  "find_marker_id obj [] = Inr PNone"
| "find_marker_id obj (a # as) =
     (case obj a of
        Absent \<Rightarrow> find_marker_id obj as
      | Has v \<Rightarrow> Inr v
      | Raises e \<Rightarrow> Inl e)"

text \<open>
  Lines 125 and 126: the nested \<^verbatim>\<open>getattr\<close> calls evaluate their default argument
  first, so the innermost name is read first.
\<close>

definition getattr3 :: "tuio_object \<Rightarrow> string \<Rightarrow> string \<Rightarrow> string \<Rightarrow> pyval \<Rightarrow> exn + pyval" where
  "getattr3 obj n1 n2 n3 dflt =
     (case getattr_default obj n3 dflt of
        Inl e \<Rightarrow> Inl e
      | Inr v3 \<Rightarrow>
          (case getattr_default obj n2 v3 of
             Inl e \<Rightarrow> Inl e
           | Inr v2 \<Rightarrow> getattr_default obj n1 v2))"

text \<open>
  Lines 107 to 136: the record of an object, \<open>None\<close> when no marker id was found
  (the caller then logs a warning and returns).
\<close>

definition normalize_obj :: "string \<Rightarrow> tuio_object \<Rightarrow> exn + tuio_record option" where
  "normalize_obj event_type obj =
     (case find_marker_id obj possible_id_attrs of
        Inl e \<Rightarrow> Inl e
      | Inr symbol_id \<Rightarrow>
          if symbol_id = PNone then Inr None
          else
            (case getattr_default obj ''session_id'' PNone of
               Inl e \<Rightarrow> Inl e
             | Inr session_id \<Rightarrow>
                 (case getattr3 obj ''x'' ''xpos'' ''x_pos'' (PFloat 0.5) of
                    Inl e \<Rightarrow> Inl e
                  | Inr px \<Rightarrow>
                      (case getattr3 obj ''y'' ''ypos'' ''y_pos'' (PFloat 0.5) of
                         Inl e \<Rightarrow> Inl e
                       | Inr py \<Rightarrow>
                           (case getattr_default obj ''angle'' (PInt 0) of
                              Inl e \<Rightarrow> Inl e
                            | Inr ang \<Rightarrow>
                                Inr (Some \<lparr>rec_event = event_type, rec_symbol_id = symbol_id,
                                           rec_session_id = session_id, rec_x = px, rec_y = py,
                                           rec_angle = ang\<rparr>))))))"

text \<open>
  The log line of lines 138 and 139 formats the symbol id and the session id with
  \<^verbatim>\<open>str\<close>, then x, y and the angle with the format code \<^verbatim>\<open>.3f\<close>: a float formats, a
  boolean or an integer is converted to a float first, a string raises \<^verbatim>\<open>ValueError\<close>,
  anything else \<^verbatim>\<open>TypeError\<close>. The first failure is the one raised.
\<close>

fun format_3f :: "pyval \<Rightarrow> exn option" where
  "format_3f (PBool b) = None"
| "format_3f (PInt i) = (case float_of_int i of Inl e \<Rightarrow> Some e | Inr r \<Rightarrow> None)"
| "format_3f (PFloat r) = None"
| "format_3f (PNonFinite s) = None"
| "format_3f (PStr s) = Some ValueError"
| "format_3f _ = Some TypeError"

definition first_raised :: "exn option list \<Rightarrow> exn option" where
  "first_raised rs = (case filter (\<lambda>r. r \<noteq> None) rs of [] \<Rightarrow> None | r # _ \<Rightarrow> r)"

definition format_record :: "tuio_record \<Rightarrow> exn option" where
  "format_record r =
     first_raised [str_raises (rec_symbol_id r), str_raises (rec_session_id r),
                   format_3f (rec_x r), format_3f (rec_y r), format_3f (rec_angle r)]"

text \<open>
  Lines 142 to 146: \<^verbatim>\<open>latest_objects[session_id] = record\<close> on add and update,
  \<^verbatim>\<open>latest_objects.pop(session_id, None)\<close> otherwise.
\<close>

definition update_cache ::
    "tuio_record \<Rightarrow> (pyval \<times> tuio_record) list \<Rightarrow> exn + (pyval \<times> tuio_record) list" where
  "update_cache record d =
     (case dict_key (rec_session_id record) of
        Inl e \<Rightarrow> Inl e
      | Inr k \<Rightarrow>
          if rec_event record = ''add'' \<or> rec_event record = ''update''
          then Inr (AList.update k record d)
          else Inr (AList.delete k d))"

text \<open>The body of the \<^verbatim>\<open>try\<close> statement of \<^verbatim>\<open>_handle_obj\<close>.\<close>

definition handle_obj_body :: "string \<Rightarrow> tuio_object \<Rightarrow> world \<Rightarrow> outcome" where
  "handle_obj_body event_type obj w =
     (case normalize_obj event_type obj of
        Inl e \<Rightarrow> (Some e, w)
      | Inr None \<Rightarrow> (None, add_log Warn_no_marker_id w)
      | Inr (Some record) \<Rightarrow>
          (case format_record record of
             Some e \<Rightarrow> (Some e, w)
           | None \<Rightarrow>
               (let w1 = add_log (Info_tuio record) w in
                case update_cache record (latest_objects w1) of
                  Inl e \<Rightarrow> (Some e, w1)
                | Inr d \<Rightarrow> process_logic_and_broadcast record (w1\<lparr>latest_objects := d\<rparr>))))"

text \<open>
  \<^verbatim>\<open>_handle_obj\<close>: the body under \<^verbatim>\<open>except Exception as e\<close>. The handler catches what
  derives from \<^verbatim>\<open>Exception\<close> and logs it, formatting \<^verbatim>\<open>e\<close> into the message; what that
  formatting raises is not caught. The first component is what reaches the caller.
\<close>

definition handle_obj :: "string \<Rightarrow> tuio_object \<Rightarrow> world \<Rightarrow> outcome" where
  "handle_obj event_type obj w =
     (case handle_obj_body event_type obj w of
        (None, w') \<Rightarrow> (None, w')
      | (Some e, w') \<Rightarrow>
          if is_Exception e then
            (case exn_str_raises e of
               None \<Rightarrow> (None, add_log (Error_handling e) w')
             | Some e' \<Rightarrow> (Some e', w'))
          else (Some e, w'))"

definition add_tuio_object :: "tuio_object \<Rightarrow> world \<Rightarrow> outcome" where
  "add_tuio_object obj w = handle_obj ''add'' obj w"

definition update_tuio_object :: "tuio_object \<Rightarrow> world \<Rightarrow> outcome" where
  "update_tuio_object obj w = handle_obj ''update'' obj w"

definition remove_tuio_object :: "tuio_object \<Rightarrow> world \<Rightarrow> outcome" where
  "remove_tuio_object obj w = handle_obj ''remove'' obj w"

text \<open>\<^verbatim>\<open>SimulatedTuioObject(symbol_id, session_id, x, y, angle)\<close>.\<close>

definition SimulatedTuioObject :: "pyval \<Rightarrow> pyval \<Rightarrow> pyval \<Rightarrow> pyval \<Rightarrow> pyval \<Rightarrow> tuio_object" where
  "SimulatedTuioObject symbol_id session_id px py ang =
     (\<lambda>name.
        if name \<in> {''fiducial_id'', ''symbol_id'', ''class_id'', ''pattern_id''} then Has symbol_id
        else if name = ''session_id'' then Has session_id
        else if name \<in> {''x_pos'', ''x''} then Has px
        else if name \<in> {''y_pos'', ''y''} then Has py
        else if name = ''angle'' then Has ang
        else Absent)"

section \<open>Objects whose failures can be logged\<close>

text \<open>
  The exceptions the interpreter raises in the modelled code, as opposed to those made by
  the external object.
\<close>

fun builtin_exn :: "exn \<Rightarrow> bool" where
  "builtin_exn (Thrown n is_exception r) = False"
| "builtin_exn _ = True"

text \<open>
  An exception that \<^verbatim>\<open>except Exception as e\<close> catches and the handler can format into its
  log message.
\<close>

definition loggable :: "exn \<Rightarrow> bool" where
  "loggable e = (is_Exception e \<and> exn_str_raises e = None)"

text \<open>The attributes that \<^verbatim>\<open>_handle_obj\<close> reads, and those whose value the log line passes to \<^verbatim>\<open>str\<close>.\<close>

definition read_attrs :: "string list" where
  "read_attrs = [''fiducial_id'', ''symbol_id'', ''class_id'', ''pattern_id'', ''session_id'',
                 ''x_pos'', ''xpos'', ''x'', ''y_pos'', ''ypos'', ''y'', ''angle'']"

definition str_attrs :: "string list" where
  "str_attrs = [''fiducial_id'', ''symbol_id'', ''class_id'', ''pattern_id'', ''session_id'']"

fun attr_loggable :: "attr \<Rightarrow> bool" where
  "attr_loggable (Raises e) = loggable e"
| "attr_loggable _ = True"

fun attr_str_loggable :: "attr \<Rightarrow> bool" where
  "attr_str_loggable (Has v) = (case str_raises v of None \<Rightarrow> True | Some e \<Rightarrow> loggable e)"
| "attr_str_loggable _ = True"

text \<open>
  An object is well behaved when whatever reading one of these attributes raises, and
  whatever \<^verbatim>\<open>str\<close> of its identifiers raises, is loggable. Objects with plain attributes
  holding numbers, strings or \<^verbatim>\<open>None\<close> are.
\<close>

definition well_behaved :: "tuio_object \<Rightarrow> bool" where
  "well_behaved obj =
     (list_all (\<lambda>name. attr_loggable (obj name)) read_attrs
      \<and> list_all (\<lambda>name. attr_str_loggable (obj name)) str_attrs)"

section \<open>What an operation raises\<close>

text \<open>\<open>raises_only P r\<close>: the outcome \<open>r\<close> raises nothing, or an exception that satisfies \<open>P\<close>.\<close>

definition raises_only :: "(exn \<Rightarrow> bool) \<Rightarrow> outcome \<Rightarrow> bool" where
  "raises_only P r = (case fst r of None \<Rightarrow> True | Some e \<Rightarrow> P e)"

section \<open>What an operation leaves alone\<close>

text \<open>
  \<open>frame P w w'\<close>: from \<open>w\<close> to \<open>w'\<close> the registry, the broken and the closed sockets are
  the same, and the lines delivered are those of \<open>w\<close> followed by lines whose message
  satisfies \<open>P\<close>.
\<close>

definition frame :: "(message \<Rightarrow> bool) \<Rightarrow> world \<Rightarrow> world \<Rightarrow> bool" where
  "frame P w w' =
     (latest_objects w' = latest_objects w \<and> broken w' = broken w
      \<and> closed_socks w' = closed_socks w
      \<and> (\<exists>ds. sent w' = sent w @ ds \<and> (\<forall>d \<in> set ds. P (snd d))))"


section \<open>Example states\<close>

text \<open>Three connected clients, the second with a broken connection.\<close>

definition hub3 :: world where
  "hub3 = \<lparr>clients = [1, 2, 3], latest_objects = [], sent = [], closed_socks = {},
           broken = {2}, logged = []\<rparr>"

text \<open>One healthy client and an empty registry.\<close>

definition table1 :: world where
  "table1 = \<lparr>clients = [7], latest_objects = [], sent = [], closed_socks = {},
             broken = {}, logged = []\<rparr>"

text \<open>An object without any attribute, and a rotate token whose \<^verbatim>\<open>x\<close> is a string.\<close>

definition no_attrs :: tuio_object where
  "no_attrs = (\<lambda>name. Absent)"


text \<open>
  The rotate token of the simulation after its last update, a table that holds it, and
  the objects the simulation feeds in: the rotate token and an Aspirin token.
\<close>

definition rotate_record :: tuio_record where
  "rotate_record = \<lparr>rec_event = ''update'', rec_symbol_id = PInt 0, rec_session_id = PInt 1000,
                    rec_x = PFloat 0.5, rec_y = PFloat 0.5, rec_angle = PFloat 5.49\<rparr>"

definition table2 :: world where
  "table2 = \<lparr>clients = [7], latest_objects = [(PInt 1000, rotate_record)], sent = [],
             closed_socks = {}, broken = {}, logged = []\<rparr>"


definition aspirin_token :: tuio_object where
  "aspirin_token = SimulatedTuioObject (PInt 4) (PInt 1002) (PFloat 0.3) (PFloat 0.3) (PInt 0)"


text \<open>
  An Aspirin token that exposes only \<^verbatim>\<open>fiducial_id\<close> and \<^verbatim>\<open>session_id\<close>, and the record
  of its \<^verbatim>\<open>add\<close> event.
\<close>

definition bare_token :: tuio_object where
  "bare_token = (\<lambda>name. if name = ''fiducial_id'' then Has (PInt 4)
                         else if name = ''session_id'' then Has (PInt 1002) else Absent)"

definition bare_record :: tuio_record where
  "bare_record = \<lparr>rec_event = ''add'', rec_symbol_id = PInt 4, rec_session_id = PInt 1002,
                  rec_x = PFloat 0.5, rec_y = PFloat 0.5, rec_angle = PInt 0\<rparr>"

text \<open>
  An Aspirin token that exposes \<^verbatim>\<open>symbol_id\<close> only, the record of its \<^verbatim>\<open>add\<close> event, and a
  table whose registry already holds a back token that came without a session id.
\<close>

definition anonymous_token :: tuio_object where
  "anonymous_token = (\<lambda>name. if name = ''symbol_id'' then Has (PInt 4) else Absent)"

definition anonymous_record :: tuio_record where
  "anonymous_record = \<lparr>rec_event = ''add'', rec_symbol_id = PInt 4, rec_session_id = PNone,
                       rec_x = PFloat 0.5, rec_y = PFloat 0.5, rec_angle = PInt 0\<rparr>"

definition earlier_record :: tuio_record where
  "earlier_record = \<lparr>rec_event = ''add'', rec_symbol_id = PInt 12, rec_session_id = PNone,
                     rec_x = PFloat 0.2, rec_y = PFloat 0.2, rec_angle = PInt 0\<rparr>"

definition table3 :: world where
  "table3 = \<lparr>clients = [7], latest_objects = [(PNone, earlier_record)], sent = [],
             closed_socks = {}, broken = {}, logged = []\<rparr>"

text \<open>
  The select token that step 3 of the simulation puts next to the rotate token, the record
  of its \<^verbatim>\<open>add\<close> event, a later update of the rotate token at angle 0, and the table once
  both tokens are on it.
\<close>

definition select_token :: tuio_object where
  "select_token = SimulatedTuioObject (PInt 1) (PInt 1001) (PFloat 0.52) (PFloat 0.52) (PInt 0)"

definition select_record :: tuio_record where
  "select_record = \<lparr>rec_event = ''add'', rec_symbol_id = PInt 1, rec_session_id = PInt 1001,
                    rec_x = PFloat 0.52, rec_y = PFloat 0.52, rec_angle = PInt 0\<rparr>"

definition rotate_token0 :: tuio_object where
  "rotate_token0 = SimulatedTuioObject (PInt 0) (PInt 1000) (PFloat 0.5) (PFloat 0.5) (PInt 0)"

definition rotate_record0 :: tuio_record where
  "rotate_record0 = \<lparr>rec_event = ''update'', rec_symbol_id = PInt 0, rec_session_id = PInt 1000,
                     rec_x = PFloat 0.5, rec_y = PFloat 0.5, rec_angle = PInt 0\<rparr>"

definition table4 :: world where
  "table4 = \<lparr>clients = [7],
             latest_objects = [(PInt 1000, rotate_record), (PInt 1001, select_record)],
             sent = [], closed_socks = {}, broken = {}, logged = []\<rparr>"

text \<open>An angle just below zero.\<close>

definition tiny_negative :: real where
  "tiny_negative = - (1 / 10 ^ 20)"


text \<open>An Aspirin token without a session id whose \<^verbatim>\<open>x\<close> is a string.\<close>

definition unformattable_token :: tuio_object where
  "unformattable_token =
     (\<lambda>name. if name = ''symbol_id'' then Has (PInt 4)
             else if name = ''x'' then Has (PStr ''left'') else Absent)"


definition LARGE_CATALOG :: int where
  "LARGE_CATALOG = 2 ^ 53 + 1"

section \<open>Properties of the sector computation\<close>

text \<open>Rounding to a double: the error, the integers it keeps, and when it stays finite.\<close>

lemma rhe_bounds: "\<bar>of_int (round_half_even x) - x\<bar> \<le> 1 / 2"
  unfolding round_half_even_def Let_def by (auto; linarith)

lemma rhe_int: "round_half_even (of_int k) = k"
  by (simp add: round_half_even_def)

lemma double_exponent_scale:
  assumes "x \<noteq> 0"
  shows "(2::real) powr of_int (double_exponent x) \<le> \<bar>x\<bar> + 1"
proof -
  let ?k = "\<lfloor>log 2 \<bar>x\<bar>\<rfloor>"
  have "(2::real) powr of_int (?k - 52) \<le> 2 powr of_int ?k" by simp
  also have "\<dots> \<le> 2 powr (log 2 \<bar>x\<bar>)" by simp
  also have "\<dots> = \<bar>x\<bar>" using assms by simp
  finally have a: "(2::real) powr of_int (?k - 52) \<le> \<bar>x\<bar> + 1" by simp
  have "(2::real) powr of_int (- 1074) \<le> 2 powr 0" by (simp only: powr_le_cancel_iff)
  then have b: "(2::real) powr of_int (- 1074) \<le> \<bar>x\<bar> + 1" by simp
  show ?thesis using a b by (simp add: double_exponent_def max_def)
qed

lemma round_double_finite:
  assumes "\<bar>x\<bar> \<le> 2 ^ 1000"
  shows "\<exists>r. round_double x = Finite r \<and> \<bar>r\<bar> \<le> 2 * \<bar>x\<bar> + 1"
proof (cases "x = 0")
  case True
  then show ?thesis by (simp add: round_double_def)
next
  case False
  define s where "s = (2::real) powr of_int (double_exponent x)"
  define r where "r = of_int (round_half_even (x / s)) * s"
  have s: "0 < s" "s \<le> \<bar>x\<bar> + 1"
    using double_exponent_scale [OF False] by (simp_all add: s_def)
  have "\<bar>of_int (round_half_even (x / s)) - x / s\<bar> \<le> 1 / 2" by (rule rhe_bounds)
  then have "\<bar>of_int (round_half_even (x / s)) - x / s\<bar> * s \<le> 1 / 2 * s"
    using s(1) by (simp only: mult_le_cancel_right_pos)
  moreover have "\<bar>of_int (round_half_even (x / s)) - x / s\<bar> * s = \<bar>r - x\<bar>"
  proof -
    have "\<bar>of_int (round_half_even (x / s)) - x / s\<bar> * s
            = \<bar>(of_int (round_half_even (x / s)) - x / s) * s\<bar>"
      using s(1) by (simp add: abs_mult)
    also have "(of_int (round_half_even (x / s)) - x / s) * s = r - x"
      using s(1) by (simp add: r_def left_diff_distrib)
    finally show ?thesis .
  qed
  ultimately have "\<bar>r - x\<bar> \<le> s / 2" by simp
  then have b: "\<bar>r\<bar> \<le> 2 * \<bar>x\<bar> + 1" using s(2) by linarith
  have "(2::real) * 2 ^ 1000 + 1 < 2 ^ 1024" by simp
  then have "\<bar>r\<bar> < 2 ^ 1024" using b assms by linarith
  then have "round_double x = Finite r"
    using False by (simp add: round_double_def Let_def r_def s_def)
  then show ?thesis using b by blast
qed

lemma round_double_of_int:
  assumes "1 \<le> n" and "n < 2 ^ 53"
  shows "round_double (of_int n) = Finite (of_int n)"
proof -
  define k where "k = \<lfloor>log 2 (of_int n :: real)\<rfloor>"
  have pos: "0 < (of_int n :: real)" using assms by simp
  have kb: "(2::real) powr of_int k \<le> of_int n"
    using floor_log_eq_powr_iff [of "of_int n :: real" 2 k] pos by (simp add: k_def)
  have k0: "0 \<le> k" using assms by (simp add: k_def)
  have n53: "(of_int n :: real) < 2 ^ 53"
    using assms(2) by (metis of_int_less_iff of_int_numeral of_int_power)
  then have "(2::real) powr of_int k < 2 powr of_int 53"
    using kb by (simp add: powr_real_of_int)
  then have "(of_int k :: real) < of_int 53" by (simp only: powr_less_cancel_iff)
  then have k52: "k \<le> 52" by simp
  have "\<bar>of_int n :: real\<bar> = of_int n" using pos by simp
  then have e: "double_exponent (of_int n) = k - 52"
    using k0 by (simp add: double_exponent_def k_def max_def)
  have "(of_int n :: real) / 2 powr of_int (k - 52) = of_int n * 2 powr of_int (52 - k)"
    by (simp add: powr_diff field_simps)
  also have "\<dots> = of_int (n * 2 ^ nat (52 - k))"
  proof -
    have "(2::real) powr of_int (52 - k) = 2 ^ nat (52 - k)"
      using k52 by (subst powr_real_of_int) simp_all
    then show ?thesis by simp
  qed
  finally have q: "(of_int n :: real) / 2 powr of_int (k - 52) = of_int (n * 2 ^ nat (52 - k))" .
  have "of_int (round_half_even (of_int n / 2 powr of_int (k - 52))) * 2 powr of_int (k - 52)
          = (of_int n :: real)"
    by (simp only: q rhe_int) (simp only: q [symmetric], simp)
  moreover have "\<bar>of_int n :: real\<bar> < 2 ^ 1024" using n53 pos by simp
  ultimately show ?thesis using pos by (simp add: round_double_def Let_def e)
qed

lemma float_of_int_exact:
  "1 \<le> n \<Longrightarrow> n < 2 ^ 53 \<Longrightarrow> float_of_int n = Inr (of_int n)"
  by (simp add: float_of_int_def round_double_of_int)

text \<open>The three steps of the sector computation stay finite on a finite angle.\<close>

lemma trunc_frac: "\<bar>q - of_int (py_int_trunc q)\<bar> < 1"
  unfolding py_int_trunc_def by (auto; linarith)

lemma c_fmod_range:
  assumes "0 < y"
  shows "\<bar>c_fmod x y\<bar> < y"
proof -
  have "c_fmod x y = y * (x / y - of_int (py_int_trunc (x / y)))"
    using assms by (simp add: c_fmod_def right_diff_distrib)
  then have "\<bar>c_fmod x y\<bar> = y * \<bar>x / y - of_int (py_int_trunc (x / y))\<bar>"
    using assms by (simp add: abs_mult)
  also have "\<dots> < y * 1"
    using assms trunc_frac [of "x / y"] by (simp only: mult_less_cancel_left_pos)
  finally show ?thesis by simp
qed

lemma TWO_PI_bounds: "0 < TWO_PI" "TWO_PI < 7"
  by (simp_all add: TWO_PI_def MATH_PI_def)

lemma wheel_theta_finite: "\<exists>t. wheel_theta (Finite a) = Finite t \<and> \<bar>t\<bar> \<le> 15"
proof -
  define m where "m = c_fmod a TWO_PI"
  have m: "\<bar>m\<bar> < 7" using c_fmod_range [OF TWO_PI_bounds(1), of a] TWO_PI_bounds(2)
    by (simp add: m_def)
  show ?thesis
  proof (cases "m < 0")
    case True
    have "\<bar>m + TWO_PI\<bar> \<le> 2 ^ 1000" using m TWO_PI_bounds by simp
    from round_double_finite [OF this] obtain r
      where r: "round_double (m + TWO_PI) = Finite r" "\<bar>r\<bar> \<le> 2 * \<bar>m + TWO_PI\<bar> + 1" by blast
    have "\<bar>r\<bar> \<le> 15" using r(2) m True TWO_PI_bounds
      using c_fmod_range [OF TWO_PI_bounds(1), of a] by (simp add: m_def abs_if split: if_splits)
    then show ?thesis using True r(1) TWO_PI_bounds
      by (simp add: wheel_theta_def py_float_mod_def m_def [symmetric])
  next
    case False
    then show ?thesis using m TWO_PI_bounds
      by (simp add: wheel_theta_def py_float_mod_def m_def [symmetric] Let_def)
  qed
qed


lemma wheel_frac_finite:
  assumes "\<bar>t\<bar> \<le> 15"
  shows "\<exists>f. wheel_frac (Finite t) = Finite f \<and> \<bar>f\<bar> \<le> 7"
proof -
  have "6 < TWO_PI" by (simp add: TWO_PI_def MATH_PI_def)
  then have q: "\<bar>t / TWO_PI\<bar> \<le> 3" using assms by (simp add: abs_if field_simps split: if_splits)
  then have "\<bar>t / TWO_PI\<bar> \<le> 2 ^ 1000" by simp
  from round_double_finite [OF this] obtain f
    where "round_double (t / TWO_PI) = Finite f" "\<bar>f\<bar> \<le> 2 * \<bar>t / TWO_PI\<bar> + 1" by blast
  then show ?thesis using q by (simp add: wheel_frac_def py_float_div_def)
qed

lemma sector_of_frac_total:
  assumes "1 \<le> n" and "n < 2 ^ 53" and "\<bar>f\<bar> \<le> 7"
  shows "\<exists>s. sector_of_frac n (Finite f) = Inr s \<and> 0 \<le> s \<and> s < n"
proof -
  have n53: "(of_int n :: real) < 2 ^ 53"
    using assms(2) by (metis of_int_less_iff of_int_numeral of_int_power)
  have "\<bar>f * of_int n\<bar> = \<bar>f\<bar> * of_int n" using assms(1) by (simp add: abs_mult)
  also have "\<dots> \<le> 7 * 2 ^ 53"
    using assms(1,3) n53 by (intro mult_mono) simp_all
  also have "\<dots> \<le> (2::real) ^ 1000" by simp
  finally have "\<bar>f * of_int n\<bar> \<le> 2 ^ 1000" .
  from round_double_finite [OF this] obtain p
    where "round_double (f * of_int n) = Finite p" by blast
  then show ?thesis using assms(1,2)
    by (simp add: sector_of_frac_def float_of_int_exact py_float_mul_def py_int_of_float_def)
qed

lemma sector_of_frac_one:
  "1 \<le> n \<Longrightarrow> n < 2 ^ 53 \<Longrightarrow> sector_of_frac n (Finite 1) = Inr 0"
  by (simp add: sector_of_frac_def float_of_int_exact py_float_mul_def py_int_of_float_def
      round_double_of_int py_int_trunc_def)

lemma wheel_sector_zero:
  "1 \<le> n \<Longrightarrow> n < 2 ^ 53 \<Longrightarrow> wheel_sector n (Finite 0) = Inr 0"
  by (simp add: wheel_sector_def wheel_theta_def wheel_frac_def py_float_mod_def c_fmod_def
      py_float_div_def round_double_def sector_of_frac_def float_of_int_exact py_float_mul_def
      py_int_of_float_def py_int_trunc_def)

lemma wheel_sector_nonfinite:
  "1 \<le> n \<Longrightarrow> n < 2 ^ 53 \<Longrightarrow> wheel_sector n (NonFinite x) = Inl ValueError"
  by (simp add: wheel_sector_def wheel_theta_def wheel_frac_def py_float_mod_def
      py_float_div_def sector_of_frac_def float_of_int_exact py_float_mul_def
      py_int_of_float_def)

lemma NUM_WHEEL_SECTORS_value: "NUM_WHEEL_SECTORS = 10"
  by (simp add: NUM_WHEEL_SECTORS_def MEDICATION_SYMBOLS_def)

text \<open>With \<open>2 ^ 53 + 1\<close> sectors, the fraction 1.0 does not give sector 0.\<close>

lemma large_exponent: "double_exponent (of_int LARGE_CATALOG) = 1"
proof -
  have "\<lfloor>log 2 (of_int LARGE_CATALOG :: real)\<rfloor> = 53"
    by (subst floor_log_eq_powr_iff) (simp_all add: powr_real_of_int LARGE_CATALOG_def)
  moreover have "\<bar>of_int LARGE_CATALOG :: real\<bar> = of_int LARGE_CATALOG"
    by (simp add: LARGE_CATALOG_def)
  ultimately show ?thesis by (simp add: double_exponent_def)
qed

lemma large_round: "round_double (of_int LARGE_CATALOG) = Finite (2 ^ 53)"
proof -
  have nz: "(of_int LARGE_CATALOG :: real) \<noteq> 0" by (simp add: LARGE_CATALOG_def)
  have s: "(2::real) powr of_int 1 = 2" by simp
  have m: "round_half_even (of_int LARGE_CATALOG / 2) = 2 ^ 52"
    by (simp add: round_half_even_def LARGE_CATALOG_def Let_def)
  have v: "of_int (2 ^ 52) * (2::real) = 2 ^ 53" by simp
  have b: "\<not> 2 ^ 1024 \<le> \<bar>(2::real) ^ 53\<bar>" by simp
  show ?thesis
    using nz b by (simp only: round_double_def large_exponent s m v Let_def if_False)
qed

lemma exact_round: "round_double (2 ^ 53) = Finite (2 ^ 53)"
proof -
  have "\<lfloor>log 2 ((2::real) ^ 53)\<rfloor> = 53"
    by (subst floor_log_eq_powr_iff) (simp_all add: powr_real_of_int)
  then have e: "double_exponent (2 ^ 53) = 1" by (simp add: double_exponent_def)
  have m: "round_half_even (2 ^ 53 / 2) = 2 ^ 52"
    by (simp add: round_half_even_def Let_def)
  have s: "(2::real) powr of_int 1 = 2" by simp
  have v: "of_int (2 ^ 52) * (2::real) = 2 ^ 53" by simp
  have b: "\<not> 2 ^ 1024 \<le> \<bar>(2::real) ^ 53\<bar>" "(2::real) ^ 53 \<noteq> 0" by simp_all
  show ?thesis using b by (simp only: round_double_def e s m v Let_def if_False)
qed

lemma large_catalog_boundary: "sector_of_frac LARGE_CATALOG (Finite 1) = Inr (2 ^ 53)"
proof -
  have a: "float_of_int LARGE_CATALOG = Inr (2 ^ 53)"
    by (simp only: float_of_int_def large_round fval.case)
  have b: "py_float_mul (Finite 1) (2 ^ 53) = Finite (2 ^ 53)"
    using exact_round by (simp add: py_float_mul_def)
  have c: "py_int_of_float (Finite (2 ^ 53)) = Inr (2 ^ 53)"
    by (simp add: py_int_of_float_def py_int_trunc_def)
  have n: "LARGE_CATALOG \<noteq> 0" "(2::int) ^ 53 mod LARGE_CATALOG = 2 ^ 53"
    by (simp_all add: LARGE_CATALOG_def)
  show ?thesis
    by (simp only: sector_of_frac_def a b c n sum.case if_False)
qed

text \<open>
  Claim C2 as stated fails twice. The angle is a float, and for the angle NaN (as for an
  infinite one) line 180 gives NaN and \<^verbatim>\<open>int\<close> on line 182 raises \<^verbatim>\<open>ValueError\<close>, so there
  is no sector. And the product of line 182 converts the number of sectors to a float:
  with \<open>2 ^ 53 + 1\<close> sectors the fraction 1.0 gives sector \<open>2 ^ 53\<close>, not 0.
\<close>

theorem C2_counterexample:
  "wheel_sector NUM_WHEEL_SECTORS (NonFinite NaN) = Inl ValueError
   \<and> 1 \<le> LARGE_CATALOG
   \<and> sector_of_frac LARGE_CATALOG (Finite 1) = Inr (2 ^ 53)"
  using large_catalog_boundary
  by (simp add: wheel_sector_nonfinite NUM_WHEEL_SECTORS_value LARGE_CATALOG_def)

text \<open>
  Claim C2, amended. For every number of sectors \<open>n\<close> from 1 up to the integers a float
  holds exactly and every finite angle, negative ones included, the sector computation
  returns an integer in \<open>[0, n)\<close>; the angle 0 gives sector 0; a fraction of exactly 1.0
  is wrapped back to sector 0 by the final modulo; and an infinite or NaN angle raises
  \<^verbatim>\<open>ValueError\<close>.
\<close>

theorem C2_sector_of_finite_angle:
  assumes "1 \<le> n" and "n < 2 ^ 53"
  shows "(\<exists>s. wheel_sector n (Finite a) = Inr s \<and> 0 \<le> s \<and> s < n)
    \<and> wheel_sector n (Finite 0) = Inr 0
    \<and> sector_of_frac n (Finite 1) = Inr 0
    \<and> wheel_sector n (NonFinite x) = Inl ValueError"
proof -
  obtain t where t: "wheel_theta (Finite a) = Finite t" "\<bar>t\<bar> \<le> 15"
    using wheel_theta_finite by blast
  obtain f where f: "wheel_frac (Finite t) = Finite f" "\<bar>f\<bar> \<le> 7"
    using wheel_frac_finite [OF t(2)] by blast
  have "\<exists>s. wheel_sector n (Finite a) = Inr s \<and> 0 \<le> s \<and> s < n"
    using sector_of_frac_total [OF assms f(2)] t(1) f(1) by (simp add: wheel_sector_def)
  then show ?thesis
    using assms by (simp add: wheel_sector_zero sector_of_frac_one wheel_sector_nonfinite)
qed

theorem C2_sector_of_finite_angle_witness:
  "(1::int) \<le> NUM_WHEEL_SECTORS \<and> NUM_WHEEL_SECTORS < 2 ^ 53
   \<and> (\<exists>s. wheel_sector NUM_WHEEL_SECTORS (Finite (- 1)) = Inr s \<and> 0 \<le> s \<and> s < NUM_WHEEL_SECTORS)
   \<and> wheel_sector NUM_WHEEL_SECTORS (Finite 0) = Inr 0
   \<and> sector_of_frac NUM_WHEEL_SECTORS (Finite 1) = Inr 0
   \<and> wheel_sector NUM_WHEEL_SECTORS (NonFinite PosInf) = Inl ValueError"
proof -
  have h: "(1::int) \<le> NUM_WHEEL_SECTORS" "NUM_WHEEL_SECTORS < 2 ^ 53"
    by (simp_all add: NUM_WHEEL_SECTORS_value)
  show ?thesis using h C2_sector_of_finite_angle [OF h, of "- 1" PosInf] by simp
qed

text \<open>
  The fraction 1.0 does occur: for a tiny negative angle the rounded sum of line 180 is
  \<open>2 * math.pi\<close> itself, the fraction is 1.0, and the final modulo gives sector 0.
\<close>

lemma tiny_sign: "tiny_negative < 0" "tiny_negative \<noteq> 0"
  by (simp_all add: tiny_negative_def)

lemma tiny_mod: "c_fmod tiny_negative TWO_PI = tiny_negative"
proof -
  have "py_int_trunc (tiny_negative / TWO_PI) = 0"
    unfolding py_int_trunc_def TWO_PI_def MATH_PI_def tiny_negative_def by simp
  then show ?thesis by (simp add: c_fmod_def)
qed

lemma tiny_exponent: "double_exponent (tiny_negative + TWO_PI) = - 50"
proof -
  have p: "0 < tiny_negative + TWO_PI" by (simp add: TWO_PI_def MATH_PI_def tiny_negative_def)
  have "\<lfloor>log 2 (tiny_negative + TWO_PI)\<rfloor> = 2"
    using p by (subst floor_log_eq_powr_iff)
      (simp_all add: powr_real_of_int TWO_PI_def MATH_PI_def tiny_negative_def)
  then show ?thesis using p by (simp add: double_exponent_def)
qed

lemma tiny_round: "round_double (tiny_negative + TWO_PI) = Finite TWO_PI"
proof -
  have nz: "tiny_negative + TWO_PI \<noteq> 0" by (simp add: TWO_PI_def MATH_PI_def tiny_negative_def)
  have s: "(2::real) powr of_int (- 50) = 1 / 2 ^ 50" by (subst powr_real_of_int) simp_all
  have m: "round_half_even ((tiny_negative + TWO_PI) / (1 / 2 ^ 50)) = 7074237752028440"
    by (simp add: round_half_even_def TWO_PI_def MATH_PI_def tiny_negative_def Let_def)
  have v: "of_int 7074237752028440 * (1 / 2 ^ 50) = TWO_PI"
    by (simp add: TWO_PI_def MATH_PI_def)
  have b: "\<not> 2 ^ 1024 \<le> \<bar>TWO_PI\<bar>" using TWO_PI_bounds by simp
  show ?thesis
    using nz b by (simp only: round_double_def tiny_exponent s m v Let_def if_False)
qed

lemma tiny_negative_angle:
  "wheel_theta (Finite tiny_negative) = Finite TWO_PI
   \<and> wheel_frac (Finite TWO_PI) = Finite 1
   \<and> wheel_sector NUM_WHEEL_SECTORS (Finite tiny_negative) = Inr 0"
proof -
  have t: "wheel_theta (Finite tiny_negative) = Finite TWO_PI"
    using TWO_PI_bounds(1) tiny_sign
    by (simp add: wheel_theta_def py_float_mod_def tiny_mod tiny_round)
  have "round_double (TWO_PI / TWO_PI) = Finite 1"
    using TWO_PI_bounds(1) round_double_of_int [of 1] by simp
  then have f: "wheel_frac (Finite TWO_PI) = Finite 1"
    by (simp add: wheel_frac_def py_float_div_def)
  show ?thesis
    using t f by (simp add: wheel_sector_def sector_of_frac_one NUM_WHEEL_SECTORS_value)
qed

section \<open>The loops of broadcast\<close>

lemma sendall_fails_sent [simp]: "sendall_fails (w\<lparr>sent := s\<rparr>) = sendall_fails w"
  by (simp add: fun_eq_iff sendall_fails_def)

lemma send_loop_eq:
  "send_loop data cs dead w =
     (dead @ filter (sendall_fails w) cs,
      w\<lparr>sent := sent w @ map (\<lambda>c. (c, data)) (filter (\<lambda>c. \<not> sendall_fails w c) cs)\<rparr>)"
  by (induction cs arbitrary: dead w) simp_all

lemma remove_loop_filter_gen:
  "\<forall>c \<in> set pre. \<not> P c \<Longrightarrow>
   remove_loop (filter P xs) (pre @ xs) = (None, pre @ filter (\<lambda>c. \<not> P c) xs)"
proof (induction xs arbitrary: pre)
  case Nil
  then show ?case by simp
next
  case (Cons x xs)
  show ?case
  proof (cases "P x")
    case True
    then have "x \<notin> set pre" using Cons.prems by blast
    then have "remove1 x (pre @ x # xs) = pre @ xs" by (simp add: remove1_append)
    then show ?thesis using True Cons.IH [OF Cons.prems] by simp
  next
    case False
    then have "\<forall>c \<in> set (pre @ [x]). \<not> P c" using Cons.prems by simp
    from Cons.IH [OF this] show ?thesis using False by simp
  qed
qed

lemma remove_loop_filter:
  "remove_loop (filter P xs) xs = (None, filter (\<lambda>c. \<not> P c) xs)"
  using remove_loop_filter_gen [of "[]" P xs] by simp

lemma broadcast_ok:
  "message_json_ok obj \<Longrightarrow>
   broadcast obj w =
     (None, w\<lparr>sent := sent w @ map (\<lambda>c. (c, obj)) (filter (\<lambda>c. \<not> sendall_fails w c) (clients w)),
              clients := filter (\<lambda>c. \<not> sendall_fails w c) (clients w)\<rparr>)"
  by (simp add: broadcast_def send_loop_eq remove_loop_filter)

lemma broadcast_not_ok:
  "\<not> message_json_ok obj \<Longrightarrow> broadcast obj w = (Some TypeError, w)"
  by (simp add: broadcast_def)


lemma frame_refl: "frame P w w"
  by (simp add: frame_def)

lemma frame_trans:
  assumes "frame P w w1" and "frame P w1 w2"
  shows "frame P w w2"
proof -
  obtain ds1 where d1: "sent w1 = sent w @ ds1" "\<forall>d \<in> set ds1. P (snd d)"
    using assms(1) by (auto simp: frame_def)
  obtain ds2 where d2: "sent w2 = sent w1 @ ds2" "\<forall>d \<in> set ds2. P (snd d)"
    using assms(2) by (auto simp: frame_def)
  have "sent w2 = sent w @ (ds1 @ ds2)" using d1 d2 by simp
  moreover have "\<forall>d \<in> set (ds1 @ ds2). P (snd d)" using d1 d2 by auto
  ultimately have "\<exists>ds. sent w2 = sent w @ ds \<and> (\<forall>d \<in> set ds. P (snd d))" by blast
  then show ?thesis using assms by (simp add: frame_def)
qed

lemma frame_add_log: "frame P w (add_log l w)"
  by (simp add: frame_def add_log_def)

lemma frame_broadcast:
  assumes "P m"
  shows "frame P w (snd (broadcast m w))"
proof (cases "message_json_ok m")
  case True
  then show ?thesis using assms by (auto simp: broadcast_ok frame_def)
next
  case False
  then show ?thesis by (simp add: broadcast_not_ok frame_refl)
qed

lemma frame_log_broadcast:
  "P m \<Longrightarrow> frame P w (snd (broadcast m (add_log l w)))"
  by (rule frame_trans [OF frame_add_log frame_broadcast])

lemma frame_and_then:
  assumes "frame P w (snd r)" and "\<And>w'. frame P w' (snd (f w'))"
  shows "frame P w (snd (and_then r f))"
proof (cases r)
  case (Pair e w1)
  show ?thesis
  proof (cases e)
    case None
    then show ?thesis using Pair assms frame_trans [of P w w1 "snd (f w1)"]
      by (simp add: and_then_def)
  next
    case (Some a)
    then show ?thesis using Pair assms by (simp add: and_then_def)
  qed
qed

lemma frame_confirm_one: "frame (\<lambda>m. True) w (snd (confirm_one r s srec w))"
  by (auto simp: confirm_one_def frame_refl frame_log_broadcast
      split: option.splits sum.splits)

lemma frame_confirm_scan: "frame (\<lambda>m. True) w (snd (confirm_scan r s srecs w))"
proof (induction srecs arbitrary: w)
  case Nil
  then show ?case by (simp add: frame_refl)
next
  case (Cons srec rest)
  show ?case by (simp add: frame_and_then frame_confirm_one Cons.IH)
qed

lemma frame_plb_direct: "frame (\<lambda>m. True) w (snd (plb_direct r w))"
  by (auto simp: plb_direct_def frame_refl frame_log_broadcast split: option.splits sum.splits)

lemma frame_plb_open: "frame (\<lambda>m. True) w (snd (plb_open r w))"
  by (simp add: plb_open_def frame_refl frame_log_broadcast)

lemma frame_plb_back: "frame (\<lambda>m. True) w (snd (plb_back r w))"
  by (simp add: plb_back_def frame_refl frame_log_broadcast)

lemma frame_plb_wheel: "frame (\<lambda>m. True) w (snd (plb_wheel r w))"
  by (auto simp: plb_wheel_def Let_def frame_refl frame_log_broadcast frame_and_then
      frame_confirm_scan split: option.splits sum.splits)

lemma frame_process: "frame (\<lambda>m. True) w (snd (process_logic_and_broadcast r w))"
  unfolding process_logic_and_broadcast_def
  by (intro frame_and_then frame_broadcast frame_plb_direct frame_plb_open frame_plb_wheel
      frame_plb_back) simp

lemma process_latest_objects:
  "latest_objects (snd (process_logic_and_broadcast r w)) = latest_objects w"
  using frame_process [of w r] by (simp add: frame_def)






section \<open>Publishing with a failing channel\<close>

text \<open>
  Claim C3 says that publishing with one failing channel delivers to the others, removes
  the failing channel, closes it and raises nothing. The code does all but one of these:
  \<^verbatim>\<open>broadcast\<close> drops the failing channel from \<^verbatim>\<open>clients\<close> and never calls \<^verbatim>\<open>close\<close> on it,
  unlike the reader's \<^verbatim>\<open>finally\<close> block and \<^verbatim>\<open>shutdown\<close>, which close what they remove.
  With three channels of which the second is broken, the event reaches the first and the
  third, the second is removed, and it is not among the closed sockets afterwards.
\<close>

theorem C3_broadcast_drops_without_close:
  "2 \<in> set (clients hub3) \<and> sendall_fails hub3 2
   \<and> \<not> sendall_fails hub3 1 \<and> \<not> sendall_fails hub3 3
   \<and> fst (broadcast BackPressed hub3) = None
   \<and> sent (snd (broadcast BackPressed hub3)) = [(1, BackPressed), (3, BackPressed)]
   \<and> clients (snd (broadcast BackPressed hub3)) = [1, 3]
   \<and> 2 \<notin> closed_socks (snd (broadcast BackPressed hub3))"
  by (simp add: broadcast_ok hub3_def sendall_fails_def)

text \<open>When exactly one channel of a duplicate-free list fails, the survivors are the rest.\<close>

lemma filter_only_one_fails:
  assumes "distinct cl" and "P c"
    and "\<forall>c' \<in> set cl. c' \<noteq> c \<longrightarrow> \<not> P c'"
  shows "filter (\<lambda>c'. \<not> P c') cl = remove1 c cl"
proof -
  have "filter (\<lambda>c'. \<not> P c') cl = filter (\<lambda>c'. c \<noteq> c') cl"
    using assms(2,3) by (intro filter_cong) auto
  also have "\<dots> = removeAll c cl" by (simp add: removeAll_filter_not_eq)
  also have "\<dots> = remove1 c cl" using assms(1) by (simp add: distinct_remove1_removeAll)
  finally show ?thesis .
qed

text \<open>
  What \<^verbatim>\<open>broadcast\<close> does in general when exactly one of several distinct channels fails
  and the event serialises: nothing is raised, the failing channel alone is removed, the
  others receive the event in order, and the set of closed sockets is as before.
\<close>

lemma broadcast_one_failing:
  assumes "message_json_ok m" and "distinct (clients w)"
    and "c \<in> set (clients w)" and "sendall_fails w c"
    and "\<forall>c' \<in> set (clients w). c' \<noteq> c \<longrightarrow> \<not> sendall_fails w c'"
  shows "fst (broadcast m w) = None
    \<and> clients (snd (broadcast m w)) = remove1 c (clients w)
    \<and> length (clients (snd (broadcast m w))) = length (clients w) - 1
    \<and> sent (snd (broadcast m w)) = sent w @ map (\<lambda>c'. (c', m)) (remove1 c (clients w))
    \<and> closed_socks (snd (broadcast m w)) = closed_socks w"
proof -
  have "filter (\<lambda>c'. \<not> sendall_fails w c') (clients w) = remove1 c (clients w)"
    using assms(2,4,5) by (rule filter_only_one_fails)
  then show ?thesis
    using assms(1,3) by (simp add: broadcast_ok length_remove1)
qed

section \<open>Registering and unregistering a channel\<close>

text \<open>
  Claim C8. For every state of the hub and every channel, appending the channel to
  \<^verbatim>\<open>clients\<close> (the acceptor) and then running the reader's \<^verbatim>\<open>finally\<close> block for it
  leaves \<^verbatim>\<open>clients\<close> with the length it had before.
\<close>

theorem C8_register_then_unregister:
  "length (clients (client_reader_finally conn (tcp_acceptor_register conn w)))
     = length (clients w)"
  by (simp add: client_reader_finally_def tcp_acceptor_register_def Let_def length_remove1)

theorem C8_register_then_unregister_witness:
  "length (clients (client_reader_finally 2 (tcp_acceptor_register 2 hub3))) = 3"
  using C8_register_then_unregister [of 2 hub3] by (simp add: hub3_def)

section \<open>Objects without an identifier\<close>

lemma find_marker_id_absent:
  "\<forall>a \<in> set as. obj a = Absent \<Longrightarrow> find_marker_id obj as = Inr PNone"
  by (induction as) simp_all

text \<open>
  Claim C6. For every event whose object has none of the attributes \<^verbatim>\<open>fiducial_id\<close>,
  \<^verbatim>\<open>symbol_id\<close>, \<^verbatim>\<open>class_id\<close>, \<^verbatim>\<open>pattern_id\<close>, the event is dropped after a warning:
  the registry and the client list are unchanged and nothing is sent, not even the raw
  passthrough.
\<close>

theorem C6_no_identifier_discarded:
  assumes "obj ''fiducial_id'' = Absent" and "obj ''symbol_id'' = Absent"
    and "obj ''class_id'' = Absent" and "obj ''pattern_id'' = Absent"
  shows "latest_objects (snd (handle_obj event_type obj w)) = latest_objects w
    \<and> sent (snd (handle_obj event_type obj w)) = sent w
    \<and> clients (snd (handle_obj event_type obj w)) = clients w
    \<and> logged (snd (handle_obj event_type obj w)) = logged w @ [Warn_no_marker_id]"
proof -
  have "find_marker_id obj possible_id_attrs = Inr PNone"
    using assms by (simp add: possible_id_attrs_def)
  then have "handle_obj_body event_type obj w = (None, add_log Warn_no_marker_id w)"
    by (simp add: handle_obj_body_def normalize_obj_def)
  then show ?thesis by (simp add: handle_obj_def add_log_def)
qed

theorem C6_no_identifier_discarded_witness:
  "no_attrs ''fiducial_id'' = Absent \<and> no_attrs ''symbol_id'' = Absent
   \<and> no_attrs ''class_id'' = Absent \<and> no_attrs ''pattern_id'' = Absent
   \<and> latest_objects (snd (handle_obj ''add'' no_attrs table1)) = []
   \<and> sent (snd (handle_obj ''add'' no_attrs table1)) = []
   \<and> clients (snd (handle_obj ''add'' no_attrs table1)) = [7]
   \<and> logged (snd (handle_obj ''add'' no_attrs table1)) = [Warn_no_marker_id]"
proof -
  have h: "no_attrs ''fiducial_id'' = Absent" "no_attrs ''symbol_id'' = Absent"
    "no_attrs ''class_id'' = Absent" "no_attrs ''pattern_id'' = Absent"
    by (simp_all add: no_attrs_def)
  show ?thesis
    using h C6_no_identifier_discarded [OF h, of "''add''" table1] by (simp add: table1_def)
qed

section \<open>The paths through the callback\<close>

text \<open>What a record that was built says about the object it was built from.\<close>

lemma normalize_obj_fields:
  assumes "normalize_obj event_type obj = Inr (Some r)"
  shows "rec_event r = event_type"
    and "getattr_default obj ''session_id'' PNone = Inr (rec_session_id r)"
    and "getattr3 obj ''x'' ''xpos'' ''x_pos'' (PFloat 0.5) = Inr (rec_x r)"
    and "getattr3 obj ''y'' ''ypos'' ''y_pos'' (PFloat 0.5) = Inr (rec_y r)"
    and "getattr_default obj ''angle'' (PInt 0) = Inr (rec_angle r)"
    and "find_marker_id obj possible_id_attrs = Inr (rec_symbol_id r)"
    and "rec_symbol_id r \<noteq> PNone"
  using assms by (auto simp: normalize_obj_def split: sum.splits if_splits)

text \<open>The four ways through the body of \<^verbatim>\<open>_handle_obj\<close>.\<close>

lemma handle_obj_body_cases:
  obtains (raised) e where "handle_obj_body event_type obj w = (Some e, w)"
  | (discarded) "handle_obj_body event_type obj w = (None, add_log Warn_no_marker_id w)"
  | (unhashable) r e where "normalize_obj event_type obj = Inr (Some r)"
      and "handle_obj_body event_type obj w = (Some e, add_log (Info_tuio r) w)"
  | (processed) r d where "normalize_obj event_type obj = Inr (Some r)"
      and "format_record r = None"
      and "update_cache r (latest_objects w) = Inr d"
      and "handle_obj_body event_type obj w
             = process_logic_and_broadcast r (add_log (Info_tuio r) w\<lparr>latest_objects := d\<rparr>)"
proof (cases "normalize_obj event_type obj")
  case (Inl e)
  then show ?thesis using raised by (simp add: handle_obj_body_def)
next
  case (Inr ro)
  show ?thesis
  proof (cases ro)
    case None
    then show ?thesis using Inr discarded by (simp add: handle_obj_body_def)
  next
    case (Some r)
    show ?thesis
    proof (cases "format_record r")
      case (Some e)
      then show ?thesis using Inr \<open>ro = Some r\<close> raised by (simp add: handle_obj_body_def)
    next
      case None
      show ?thesis
      proof (cases "update_cache r (latest_objects w)")
        case (Inl e)
        then show ?thesis using Inr \<open>ro = Some r\<close> None unhashable [of r e]
          by (simp add: handle_obj_body_def Let_def add_log_def)
      next
        case (Inr d)
        then show ?thesis using \<open>normalize_obj event_type obj = Inr ro\<close> \<open>ro = Some r\<close> None
            processed [of r d]
          by (simp add: handle_obj_body_def Let_def add_log_def)
      qed
    qed
  qed
qed

lemma handle_obj_snd:
  "handle_obj_body event_type obj w = (e, w') \<Longrightarrow>
   latest_objects (snd (handle_obj event_type obj w)) = latest_objects w'
   \<and> sent (snd (handle_obj event_type obj w)) = sent w'
   \<and> clients (snd (handle_obj event_type obj w)) = clients w'"
  by (cases e) (simp_all add: handle_obj_def add_log_def split: option.splits)

section \<open>The exceptions of each step\<close>

lemma raises_only_None [simp]: "raises_only P (None, w)"
  by (simp add: raises_only_def)

lemma raises_only_Some [simp]: "raises_only P (Some e, w) = P e"
  by (simp add: raises_only_def)

lemma raises_only_and_then:
  assumes "raises_only P r" and "\<And>w. raises_only P (f w)"
  shows "raises_only P (and_then r f)"
  using assms by (cases r) (auto simp: and_then_def split: option.splits)

lemma remove_loop_raises: "fst (remove_loop ds cl) = None \<or> fst (remove_loop ds cl) = Some ValueError"
  by (induction ds cl rule: remove_loop.induct) auto

lemma raises_broadcast: "raises_only builtin_exn (broadcast m w)"
proof (cases "message_json_ok m")
  case True
  then show ?thesis by (simp add: broadcast_ok)
next
  case False
  then show ?thesis by (simp add: broadcast_not_ok)
qed

lemma dict_key_raises: "dict_key v = Inl e \<Longrightarrow> e = TypeError"
  by (cases v) (auto split: if_splits)

lemma float_of_int_raises: "float_of_int i = Inl e \<Longrightarrow> e = OverflowError"
  by (auto simp: float_of_int_def split: fval.splits)

lemma float_of_raises: "float_of v = Inl e \<Longrightarrow> builtin_exn e"
  by (cases v) (auto split: sum.splits dest: float_of_int_raises)

lemma py_sub_raises: "py_sub a b = Inl e \<Longrightarrow> builtin_exn e"
  by (auto simp: py_sub_def split: if_splits option.splits sum.splits dest: float_of_raises)

lemma py_hypot_raises: "py_hypot a b = Inl e \<Longrightarrow> builtin_exn e"
  by (auto simp: py_hypot_def split: sum.splits dest: float_of_raises)

lemma list_index_raises: "list_index xs i = Inl e \<Longrightarrow> e = IndexError"
  by (auto simp: list_index_def split: if_splits)

lemma sector_of_frac_raises: "sector_of_frac n fr = Inl e \<Longrightarrow> builtin_exn e"
  by (auto simp: sector_of_frac_def py_int_of_float_def
      split: sum.splits fval.splits nonfinite.splits if_splits dest: float_of_int_raises)

lemma raises_plb_direct: "raises_only builtin_exn (plb_direct r w)"
  by (auto simp: plb_direct_def medication_lookup_def raises_broadcast
      split: sum.splits option.splits pyval.splits dest: dict_key_raises)

lemma raises_plb_open: "raises_only builtin_exn (plb_open r w)"
  by (simp add: plb_open_def raises_broadcast)

lemma raises_plb_back: "raises_only builtin_exn (plb_back r w)"
  by (simp add: plb_back_def raises_broadcast)

lemma raises_confirm_one: "raises_only builtin_exn (confirm_one r s srec w)"
  by (auto simp: confirm_one_def raises_broadcast split: sum.splits
      dest: py_sub_raises py_hypot_raises list_index_raises)

lemma raises_confirm_scan: "raises_only builtin_exn (confirm_scan r s srecs w)"
  by (induction srecs arbitrary: w) (simp_all add: raises_only_and_then raises_confirm_one)

lemma raises_plb_wheel: "raises_only builtin_exn (plb_wheel r w)"
  by (auto simp: plb_wheel_def Let_def raises_broadcast raises_confirm_scan
      intro!: raises_only_and_then split: sum.splits
      dest: float_of_raises sector_of_frac_raises list_index_raises)

lemma raises_process: "raises_only builtin_exn (process_logic_and_broadcast r w)"
  unfolding process_logic_and_broadcast_def
  by (intro raises_only_and_then raises_broadcast raises_plb_direct raises_plb_open
      raises_plb_wheel raises_plb_back)

lemma builtin_loggable: "builtin_exn e \<Longrightarrow> loggable e"
  by (cases e) (simp_all add: loggable_def)

lemma getattr_default_raises:
  "attr_loggable (obj n) \<Longrightarrow> getattr_default obj n d = Inl e \<Longrightarrow> loggable e"
  by (auto simp: getattr_default_def split: attr.splits)

lemma getattr3_raises:
  "attr_loggable (obj n1) \<Longrightarrow> attr_loggable (obj n2) \<Longrightarrow> attr_loggable (obj n3) \<Longrightarrow>
   getattr3 obj n1 n2 n3 d = Inl e \<Longrightarrow> loggable e"
  by (auto simp: getattr3_def split: sum.splits dest: getattr_default_raises)

lemma find_marker_id_raises:
  "list_all (\<lambda>n. attr_loggable (obj n)) as \<Longrightarrow> find_marker_id obj as = Inl e \<Longrightarrow> loggable e"
  by (induction as) (auto split: attr.splits)

lemma find_marker_id_value:
  "find_marker_id obj as = Inr v \<Longrightarrow> v = PNone \<or> (\<exists>n \<in> set as. obj n = Has v)"
  by (induction as) (auto split: attr.splits)

lemma well_behaved_reads:
  assumes "well_behaved obj"
  shows "list_all (\<lambda>n. attr_loggable (obj n)) possible_id_attrs"
    and "attr_loggable (obj ''session_id'')"
    and "attr_loggable (obj ''x'')" and "attr_loggable (obj ''xpos'')"
    and "attr_loggable (obj ''x_pos'')"
    and "attr_loggable (obj ''y'')" and "attr_loggable (obj ''ypos'')"
    and "attr_loggable (obj ''y_pos'')"
    and "attr_loggable (obj ''angle'')"
  using assms by (simp_all add: well_behaved_def read_attrs_def possible_id_attrs_def)

lemma well_behaved_strs:
  assumes "well_behaved obj"
  shows "list_all (\<lambda>n. attr_str_loggable (obj n)) possible_id_attrs"
    and "attr_str_loggable (obj ''session_id'')"
  using assms by (simp_all add: well_behaved_def str_attrs_def possible_id_attrs_def)

lemma normalize_obj_raises:
  assumes "well_behaved obj" and "normalize_obj event_type obj = Inl e"
  shows "loggable e"
  using assms(2) well_behaved_reads [OF assms(1)]
  by (auto simp: normalize_obj_def split: sum.splits if_splits
      dest: find_marker_id_raises getattr_default_raises getattr3_raises)

lemma format_3f_raises: "format_3f v = Some e \<Longrightarrow> builtin_exn e"
  by (cases v) (auto split: sum.splits dest: float_of_int_raises)

lemma first_raised_mem: "first_raised rs = Some e \<Longrightarrow> Some e \<in> set rs"
proof -
  assume a: "first_raised rs = Some e"
  then obtain xs where "filter (\<lambda>r. r \<noteq> None) rs = Some e # xs"
    by (auto simp: first_raised_def split: list.splits)
  then have "Some e \<in> set (filter (\<lambda>r. r \<noteq> None) rs)" by simp
  then show ?thesis by simp
qed

lemma symbol_id_str_raises:
  assumes "well_behaved obj" and "normalize_obj event_type obj = Inr (Some r)"
    and "str_raises (rec_symbol_id r) = Some e"
  shows "loggable e"
proof -
  have "find_marker_id obj possible_id_attrs = Inr (rec_symbol_id r)"
    and "rec_symbol_id r \<noteq> PNone"
    using normalize_obj_fields(6,7) [OF assms(2)] by simp_all
  then obtain n where n: "n \<in> set possible_id_attrs" "obj n = Has (rec_symbol_id r)"
    using find_marker_id_value by blast
  have "attr_str_loggable (obj n)"
    using well_behaved_strs(1) [OF assms(1)] n(1) by (simp add: list_all_iff)
  then show ?thesis using n(2) assms(3) by simp
qed

lemma session_id_str_raises:
  assumes "well_behaved obj" and "normalize_obj event_type obj = Inr (Some r)"
    and "str_raises (rec_session_id r) = Some e"
  shows "loggable e"
proof -
  have "getattr_default obj ''session_id'' PNone = Inr (rec_session_id r)"
    using normalize_obj_fields(2) [OF assms(2)] .
  then have "obj ''session_id'' = Has (rec_session_id r)"
    using assms(3) by (auto simp: getattr_default_def split: attr.splits)
  then show ?thesis using well_behaved_strs(2) [OF assms(1)] assms(3) by simp
qed

lemma format_record_raises:
  assumes "well_behaved obj" and "normalize_obj event_type obj = Inr (Some r)"
    and "format_record r = Some e"
  shows "loggable e"
proof -
  have "Some e \<in> {str_raises (rec_symbol_id r), str_raises (rec_session_id r),
                  format_3f (rec_x r), format_3f (rec_y r), format_3f (rec_angle r)}"
    using first_raised_mem [of _ e] assms(3) by (fastforce simp: format_record_def)
  then show ?thesis
    using symbol_id_str_raises [OF assms(1,2)] session_id_str_raises [OF assms(1,2)]
      format_3f_raises builtin_loggable by (metis insertE singletonD)
qed

lemma update_cache_raises: "update_cache r d = Inl e \<Longrightarrow> builtin_exn e"
  by (auto simp: update_cache_def split: sum.splits if_splits dest: dict_key_raises)

lemma raises_only_builtin:
  "raises_only builtin_exn r \<Longrightarrow> raises_only loggable r"
  by (cases r) (auto simp: raises_only_def builtin_loggable split: option.splits)

lemma raises_handle_obj_body:
  assumes "well_behaved obj"
  shows "raises_only loggable (handle_obj_body event_type obj w)"
proof (cases "normalize_obj event_type obj")
  case (Inl e)
  then show ?thesis
    using normalize_obj_raises [OF assms Inl] by (simp add: handle_obj_body_def)
next
  case (Inr ro)
  show ?thesis
  proof (cases ro)
    case None
    then show ?thesis using Inr by (simp add: handle_obj_body_def)
  next
    case (Some r)
    have n: "normalize_obj event_type obj = Inr (Some r)" using Inr Some by simp
    show ?thesis
    proof (cases "format_record r")
      case (Some e)
      then show ?thesis
        using format_record_raises [OF assms n Some] n by (simp add: handle_obj_body_def)
    next
      case None
      show ?thesis
      proof (cases "update_cache r (latest_objects w)")
        case (Inl e)
        then show ?thesis
          using n None update_cache_raises [OF Inl]
          by (simp add: handle_obj_body_def Let_def add_log_def builtin_loggable)
      next
        case (Inr d)
        have "handle_obj_body event_type obj w
                = process_logic_and_broadcast r (add_log (Info_tuio r) w\<lparr>latest_objects := d\<rparr>)"
          using n None Inr by (simp add: handle_obj_body_def Let_def add_log_def)
        then show ?thesis using raises_process raises_only_builtin by simp
      qed
    qed
  qed
qed

section \<open>What the callback lets through\<close>






section \<open>Removing an unknown session\<close>

lemma handle_obj_returns:
  assumes "well_behaved obj"
  shows "fst (handle_obj event_type obj w) = None"
  using raises_handle_obj_body [OF assms, of event_type w]
  by (cases "handle_obj_body event_type obj w")
     (auto simp: handle_obj_def raises_only_def loggable_def split: option.splits)

text \<open>
  Claim C7. For every object whose session id is not a key of \<^verbatim>\<open>latest_objects\<close>,
  handling its \<^verbatim>\<open>remove\<close> event leaves \<^verbatim>\<open>latest_objects\<close> as it was, and raises no error:
  the \<^verbatim>\<open>pop\<close> of the absent key succeeds, and the callback of a well-behaved object
  returns normally.
\<close>

theorem C7_remove_absent_session:
  assumes "\<forall>sid k. getattr_default obj ''session_id'' PNone = Inr sid \<longrightarrow> dict_key sid = Inr k
             \<longrightarrow> k \<notin> fst ` set (latest_objects w)"
  shows "latest_objects (snd (handle_obj ''remove'' obj w)) = latest_objects w
    \<and> (\<forall>r k. normalize_obj ''remove'' obj = Inr (Some r) \<and> dict_key (rec_session_id r) = Inr k
           \<longrightarrow> update_cache r (latest_objects w) = Inr (latest_objects w))
    \<and> (well_behaved obj \<longrightarrow> fst (handle_obj ''remove'' obj w) = None)"
proof -
  have "latest_objects (snd (handle_obj_body ''remove'' obj w)) = latest_objects w"
  proof (cases rule: handle_obj_body_cases [of "''remove''" obj w])
    case (raised e)
    then show ?thesis by simp
  next
    case discarded
    then show ?thesis by (simp add: add_log_def)
  next
    case (unhashable r e)
    then show ?thesis by (simp add: add_log_def)
  next
    case (processed r d)
    obtain k where k: "dict_key (rec_session_id r) = Inr k"
      using processed(3) by (auto simp: update_cache_def split: sum.splits)
    have "k \<notin> fst ` set (latest_objects w)"
      using assms normalize_obj_fields(2) [OF processed(1)] k by blast
    then have "d = latest_objects w"
      using processed(3) k normalize_obj_fields(1) [OF processed(1)]
      by (simp add: update_cache_def AList.delete_id)
    then show ?thesis using processed(4) by (simp add: process_latest_objects)
  qed
  then have "latest_objects (snd (handle_obj ''remove'' obj w)) = latest_objects w"
    using handle_obj_snd [of "''remove''" obj w] by (cases "handle_obj_body ''remove'' obj w") simp
  moreover have "update_cache r (latest_objects w) = Inr (latest_objects w)"
    if "normalize_obj ''remove'' obj = Inr (Some r)" and "dict_key (rec_session_id r) = Inr k"
    for r k
  proof -
    have "k \<notin> fst ` set (latest_objects w)"
      using assms normalize_obj_fields(2) [OF that(1)] that(2) by blast
    then show ?thesis
      using that(2) normalize_obj_fields(1) [OF that(1)]
      by (simp add: update_cache_def AList.delete_id)
  qed
  ultimately show ?thesis using handle_obj_returns by blast
qed

theorem C7_remove_absent_session_witness:
  "getattr_default aspirin_token ''session_id'' PNone = Inr (PInt 1002)
   \<and> dict_key (PInt 1002) = Inr (PInt 1002)
   \<and> PInt 1002 \<notin> fst ` set (latest_objects table2)
   \<and> well_behaved aspirin_token
   \<and> latest_objects (snd (handle_obj ''remove'' aspirin_token table2)) = [(PInt 1000, rotate_record)]
   \<and> fst (handle_obj ''remove'' aspirin_token table2) = None"
proof -
  have g: "getattr_default aspirin_token ''session_id'' PNone = Inr (PInt 1002)"
    by (simp add: getattr_default_def aspirin_token_def SimulatedTuioObject_def)
  have l: "latest_objects table2 = [(PInt 1000, rotate_record)]" by (simp add: table2_def)
  have h: "\<forall>sid k. getattr_default aspirin_token ''session_id'' PNone = Inr sid
             \<longrightarrow> dict_key sid = Inr k \<longrightarrow> k \<notin> fst ` set (latest_objects table2)"
    by (auto simp: g l)
  have b: "well_behaved aspirin_token"
    by (simp add: well_behaved_def read_attrs_def str_attrs_def aspirin_token_def
        SimulatedTuioObject_def)
  show ?thesis using g b C7_remove_absent_session [OF h] by (simp add: l)
qed

section \<open>Remove events\<close>

lemma handle_obj_body_processed:
  assumes "normalize_obj event_type obj = Inr (Some r)" and "format_record r = None"
    and "update_cache r (latest_objects w) = Inr d"
  shows "handle_obj_body event_type obj w
           = process_logic_and_broadcast r (add_log (Info_tuio r) w\<lparr>latest_objects := d\<rparr>)"
  using assms by (simp add: handle_obj_body_def Let_def add_log_def)










section \<open>Evaluating the log line\<close>

text \<open>An integer beyond the range of a float does not pass the format code \<^verbatim>\<open>.3f\<close>.\<close>

lemma round_double_overflow:
  assumes "2 ^ 1026 \<le> x"
  shows "round_double x = NonFinite PosInf"
proof -
  have big: "(0::real) < 2 ^ 1026" by simp
  have xp: "0 < x" using assms big by linarith
  then have nz: "x \<noteq> 0" by simp
  define s where "s = (2::real) powr of_int (double_exponent x)"
  define r where "r = of_int (round_half_even (x / s)) * s"
  have s: "0 < s" "s \<le> x + 1"
    using double_exponent_scale [OF nz] xp by (simp_all add: s_def)
  have "\<bar>of_int (round_half_even (x / s)) - x / s\<bar> \<le> 1 / 2" by (rule rhe_bounds)
  then have "\<bar>of_int (round_half_even (x / s)) - x / s\<bar> * s \<le> 1 / 2 * s"
    using s(1) by (simp only: mult_le_cancel_right_pos)
  moreover have "\<bar>of_int (round_half_even (x / s)) - x / s\<bar> * s = \<bar>r - x\<bar>"
  proof -
    have "\<bar>of_int (round_half_even (x / s)) - x / s\<bar> * s
            = \<bar>(of_int (round_half_even (x / s)) - x / s) * s\<bar>"
      using s(1) by (simp add: abs_mult)
    also have "(of_int (round_half_even (x / s)) - x / s) * s = r - x"
      using s(1) by (simp add: r_def left_diff_distrib)
    finally show ?thesis .
  qed
  ultimately have h: "\<bar>r - x\<bar> \<le> s / 2" by simp
  have "x - r \<le> \<bar>r - x\<bar>" by (metis abs_ge_self abs_minus_commute)
  then have "x - r \<le> s / 2" using h by (rule order_trans)
  then have lo: "(x - 1) / 2 \<le> r" using s(2) by (simp add: field_simps)
  have "(2::real) ^ 1024 \<le> (2 ^ 1026 - 1) / 2" by simp
  also have "\<dots> \<le> (x - 1) / 2" using assms by simp
  also note lo
  finally have r1: "2 ^ 1024 \<le> r" .
  have "(0::real) < 2 ^ 1024" by simp
  also note r1
  finally have r0: "0 < r" .
  then have "2 ^ 1024 \<le> \<bar>r\<bar>" using r1 by simp
  then show ?thesis using nz r0 by (simp add: round_double_def Let_def r_def s_def)
qed

lemma huge_int_does_not_format: "format_3f (PInt (10 ^ 309)) = Some OverflowError"
proof -
  have "(2::real) ^ 1026 \<le> of_int (10 ^ 309)" by simp
  from round_double_overflow [OF this] show ?thesis by (simp add: float_of_int_def)
qed

lemma float_of_int_zero: "float_of_int 0 = Inr 0"
  by (simp add: float_of_int_def round_double_def)

section \<open>Defaults and the order of registry update and processing\<close>

lemma handle_obj_body_stored:
  assumes "normalize_obj event_type obj = Inr (Some r)" and "format_record r = None"
    and "dict_key (rec_session_id r) = Inr k"
    and "event_type = ''add'' \<or> event_type = ''update''"
  shows "handle_obj_body event_type obj w
           = process_logic_and_broadcast r
               (add_log (Info_tuio r) w\<lparr>latest_objects := AList.update k r (latest_objects w)\<rparr>)"
proof -
  have "rec_event r = event_type" using normalize_obj_fields(1) [OF assms(1)] .
  then have "update_cache r (latest_objects w) = Inr (AList.update k r (latest_objects w))"
    using assms(3,4) by (auto simp: update_cache_def)
  from handle_obj_body_processed [OF assms(1,2) this] show ?thesis .
qed

lemma normalize_obj_defaults:
  assumes "normalize_obj event_type obj = Inr (Some r)"
  shows "obj ''x'' = Absent \<and> obj ''xpos'' = Absent \<and> obj ''x_pos'' = Absent
           \<longrightarrow> rec_x r = PFloat 0.5"
    and "obj ''y'' = Absent \<and> obj ''ypos'' = Absent \<and> obj ''y_pos'' = Absent
           \<longrightarrow> rec_y r = PFloat 0.5"
    and "obj ''angle'' = Absent \<longrightarrow> rec_angle r = PInt 0"
  using normalize_obj_fields(3,4,5) [OF assms]
  by (auto simp: getattr3_def getattr_default_def)

lemma update_in_values: "v \<in> snd ` set (AList.update k v al)"
  by (induction al) (auto simp: image_iff)

text \<open>
  Claim C5. For every object that yields a record: a position none of whose names is
  present is \<^verbatim>\<open>(0.5, 0.5)\<close> and a missing angle is 0; and on \<^verbatim>\<open>add\<close> and \<^verbatim>\<open>update\<close>
  the Selection Engine runs on a state whose registry already holds this record under the
  object's session id, so the scan for select tokens reads the event's own state.
\<close>

theorem C5_defaults_and_registry_first:
  assumes "normalize_obj event_type obj = Inr (Some r)"
  shows "(obj ''x'' = Absent \<and> obj ''xpos'' = Absent \<and> obj ''x_pos'' = Absent
            \<longrightarrow> rec_x r = PFloat 0.5)
    \<and> (obj ''y'' = Absent \<and> obj ''ypos'' = Absent \<and> obj ''y_pos'' = Absent
            \<longrightarrow> rec_y r = PFloat 0.5)
    \<and> (obj ''angle'' = Absent \<longrightarrow> rec_angle r = PInt 0)
    \<and> (\<forall>k. (event_type = ''add'' \<or> event_type = ''update'') \<and> format_record r = None
             \<and> dict_key (rec_session_id r) = Inr k \<longrightarrow>
          handle_obj_body event_type obj w
            = process_logic_and_broadcast r
                (add_log (Info_tuio r) w\<lparr>latest_objects := AList.update k r (latest_objects w)\<rparr>)
          \<and> map_of (AList.update k r (latest_objects w)) k = Some r
          \<and> r \<in> snd ` set (AList.update k r (latest_objects w)))"
  using normalize_obj_defaults [OF assms] handle_obj_body_stored [OF assms]
  by (simp add: AList.update_conv' update_in_values)

lemma bare_token_normalized: "normalize_obj ''add'' bare_token = Inr (Some bare_record)"
  by (simp add: normalize_obj_def possible_id_attrs_def bare_token_def getattr3_def
      getattr_default_def bare_record_def)

theorem C5_defaults_and_registry_first_witness:
  "normalize_obj ''add'' bare_token = Inr (Some bare_record)
   \<and> bare_token ''x'' = Absent \<and> bare_token ''xpos'' = Absent \<and> bare_token ''x_pos'' = Absent
   \<and> bare_token ''y'' = Absent \<and> bare_token ''ypos'' = Absent \<and> bare_token ''y_pos'' = Absent
   \<and> bare_token ''angle'' = Absent
   \<and> format_record bare_record = None \<and> dict_key (rec_session_id bare_record) = Inr (PInt 1002)
   \<and> rec_x bare_record = PFloat 0.5 \<and> rec_y bare_record = PFloat 0.5
   \<and> rec_angle bare_record = PInt 0
   \<and> handle_obj_body ''add'' bare_token table2
       = process_logic_and_broadcast bare_record
           (add_log (Info_tuio bare_record) table2
              \<lparr>latest_objects := AList.update (PInt 1002) bare_record (latest_objects table2)\<rparr>)
   \<and> map_of (AList.update (PInt 1002) bare_record (latest_objects table2)) (PInt 1002)
       = Some bare_record"
proof -
  have a: "bare_token ''x'' = Absent" "bare_token ''xpos'' = Absent" "bare_token ''x_pos'' = Absent"
    "bare_token ''y'' = Absent" "bare_token ''ypos'' = Absent" "bare_token ''y_pos'' = Absent"
    "bare_token ''angle'' = Absent"
    by (simp_all add: bare_token_def)
  have f: "format_record bare_record = None" "dict_key (rec_session_id bare_record) = Inr (PInt 1002)"
    by (simp_all add: format_record_def first_raised_def float_of_int_zero bare_record_def)
  show ?thesis
    using C5_defaults_and_registry_first [OF bare_token_normalized, of table2] a f
      bare_token_normalized
    by simp
qed


section \<open>Objects without a session id\<close>

lemma length_update_present:
  "k \<in> fst ` set al \<Longrightarrow> length (AList.update k v al) = length al"
  by (induction al) auto

lemma handle_obj_latest_objects:
  assumes "normalize_obj event_type obj = Inr (Some r)" and "format_record r = None"
    and "dict_key (rec_session_id r) = Inr k"
  shows "latest_objects (snd (handle_obj event_type obj w))
           = (if event_type = ''add'' \<or> event_type = ''update''
              then AList.update k r (latest_objects w) else AList.delete k (latest_objects w))"
proof -
  have "rec_event r = event_type" using normalize_obj_fields(1) [OF assms(1)] .
  then have "update_cache r (latest_objects w)
               = Inr (if event_type = ''add'' \<or> event_type = ''update''
                      then AList.update k r (latest_objects w)
                      else AList.delete k (latest_objects w))"
    using assms(3) by (simp add: update_cache_def)
  from handle_obj_body_processed [OF assms(1,2) this]
  have "latest_objects (snd (handle_obj_body event_type obj w))
          = (if event_type = ''add'' \<or> event_type = ''update''
             then AList.update k r (latest_objects w) else AList.delete k (latest_objects w))"
    by (simp add: process_latest_objects)
  then show ?thesis
    using handle_obj_snd [of event_type obj w]
    by (cases "handle_obj_body event_type obj w") simp
qed

lemma handle_obj_body_run:
  assumes "normalize_obj event_type obj = Inr (Some r)" and "format_record r = None"
    and "dict_key (rec_session_id r) = Inr k"
  shows "handle_obj_body event_type obj w
           = process_logic_and_broadcast r
               (add_log (Info_tuio r) w
                  \<lparr>latest_objects :=
                     (if event_type = ''add'' \<or> event_type = ''update''
                      then AList.update k r (latest_objects w)
                      else AList.delete k (latest_objects w))\<rparr>)"
proof -
  have "rec_event r = event_type" using normalize_obj_fields(1) [OF assms(1)] .
  then have "update_cache r (latest_objects w)
               = Inr (if event_type = ''add'' \<or> event_type = ''update''
                      then AList.update k r (latest_objects w)
                      else AList.delete k (latest_objects w))"
    using assms(3) by (simp add: update_cache_def)
  from handle_obj_body_processed [OF assms(1,2) this] show ?thesis .
qed

text \<open>
  Claim C10 as stated fails: an object that resolves a symbol id and has no
  \<^verbatim>\<open>session_id\<close> is not always processed. When its \<^verbatim>\<open>x\<close> is a string, the log line of
  line 139 raises: nothing is stored under \<^verbatim>\<open>None\<close> and nothing is sent.
\<close>

theorem C10_counterexample:
  "find_marker_id unformattable_token possible_id_attrs = Inr (PInt 4)
   \<and> unformattable_token ''session_id'' = Absent
   \<and> latest_objects (snd (handle_obj ''add'' unformattable_token table1)) = []
   \<and> sent (snd (handle_obj ''add'' unformattable_token table1)) = []"
  by (simp add: handle_obj_def handle_obj_body_def normalize_obj_def possible_id_attrs_def
      unformattable_token_def getattr3_def getattr_default_def format_record_def
      first_raised_def add_log_def table1_def)

text \<open>
  Claim C10, amended. For every object that yields a record and passes the log line
  (its symbol id resolves, and its position and angle format under \<^verbatim>\<open>.3f\<close>) but has no
  \<^verbatim>\<open>session_id\<close> attribute: the session id of the record is \<^verbatim>\<open>None\<close>; the event is
  processed, not dropped; afterwards the registry holds the record under the key
  \<^verbatim>\<open>None\<close> (add, update) or holds nothing under it (remove); and when an entry under
  \<^verbatim>\<open>None\<close> was already there, it is replaced, so that all such objects share one entry.
\<close>

theorem C10_missing_session_id_key_none:
  assumes "normalize_obj event_type obj = Inr (Some r)" and "obj ''session_id'' = Absent"
    and "format_record r = None"
  shows "rec_session_id r = PNone
    \<and> handle_obj_body event_type obj w
        = process_logic_and_broadcast r
            (add_log (Info_tuio r) w
               \<lparr>latest_objects :=
                  (if event_type = ''add'' \<or> event_type = ''update''
                   then AList.update PNone r (latest_objects w)
                   else AList.delete PNone (latest_objects w))\<rparr>)
    \<and> map_of (latest_objects (snd (handle_obj event_type obj w))) PNone
        = (if event_type = ''add'' \<or> event_type = ''update'' then Some r else None)
    \<and> ((event_type = ''add'' \<or> event_type = ''update'') \<and> PNone \<in> fst ` set (latest_objects w)
         \<longrightarrow> length (latest_objects (snd (handle_obj event_type obj w)))
               = length (latest_objects w))"
proof -
  have s: "rec_session_id r = PNone"
    using normalize_obj_fields(2) [OF assms(1)] assms(2) by (simp add: getattr_default_def)
  then have k: "dict_key (rec_session_id r) = Inr PNone" by simp
  show ?thesis
    using s handle_obj_body_run [OF assms(1,3) k, of w]
      handle_obj_latest_objects [OF assms(1,3) k, of w]
    by (simp add: AList.update_conv' AList.delete_conv' length_update_present)
qed

lemma anonymous_token_normalized:
  "normalize_obj ''add'' anonymous_token = Inr (Some anonymous_record)"
  by (simp add: normalize_obj_def possible_id_attrs_def anonymous_token_def getattr3_def
      getattr_default_def anonymous_record_def)

theorem C10_missing_session_id_key_none_witness:
  "normalize_obj ''add'' anonymous_token = Inr (Some anonymous_record)
   \<and> anonymous_token ''session_id'' = Absent
   \<and> format_record anonymous_record = None
   \<and> PNone \<in> fst ` set (latest_objects table3)
   \<and> rec_session_id anonymous_record = PNone
   \<and> map_of (latest_objects (snd (handle_obj ''add'' anonymous_token table3))) PNone
       = Some anonymous_record
   \<and> length (latest_objects (snd (handle_obj ''add'' anonymous_token table3))) = 1"
proof -
  have a: "anonymous_token ''session_id'' = Absent" by (simp add: anonymous_token_def)
  have f: "format_record anonymous_record = None"
    by (simp add: format_record_def first_raised_def float_of_int_zero anonymous_record_def)
  have l: "latest_objects table3 = [(PNone, earlier_record)]" by (simp add: table3_def)
  show ?thesis
    using C10_missing_session_id_key_none [OF anonymous_token_normalized a f, of table3]
      anonymous_token_normalized a f
    by (simp add: l)
qed


section \<open>A select token appears next to the rotate token\<close>

lemma select_token_normalized:
  "normalize_obj ''add'' select_token = Inr (Some select_record)"
  by (simp add: normalize_obj_def possible_id_attrs_def select_token_def
      SimulatedTuioObject_def getattr3_def getattr_default_def select_record_def)

lemma select_token_near: "sqrt ((0.52 - 0.5)\<^sup>2 + (0.52 - 0.5)\<^sup>2) < PROXIMITY_THRESHOLD"
proof -
  have "sqrt ((0.52 - 0.5)\<^sup>2 + (0.52 - 0.5)\<^sup>2) < sqrt ((0.08)\<^sup>2)"
    by (simp only: real_sqrt_less_iff) (simp add: power2_eq_square)
  then show ?thesis by (simp add: PROXIMITY_THRESHOLD_def)
qed

text \<open>
  Claim C1 says that the \<^verbatim>\<open>add\<close> event of a select token closer than 0.08 to a live
  rotate token emits the confirm of the hovered sector. The code does not do that: with
  the rotate token of the simulation in the registry at (0.5, 0.5) and the select token
  added at (0.52, 0.52), the only line sent is the raw passthrough of the select token.
\<close>

theorem C1_select_add_sends_raw_only:
  "map_of (latest_objects table2) (PInt 1000) = Some rotate_record
   \<and> py_eq_int (rec_symbol_id rotate_record) ROTATE_SYMBOL
   \<and> py_eq_int (rec_symbol_id select_record) SELECT_SYMBOL
   \<and> normalize_obj ''add'' select_token = Inr (Some select_record)
   \<and> sqrt ((0.52 - 0.5)\<^sup>2 + (0.52 - 0.5)\<^sup>2) < PROXIMITY_THRESHOLD
   \<and> sent (snd (add_tuio_object select_token table2)) = [(7, TuioObj select_record)]"
  using select_token_near
  by (simp add: add_tuio_object_def handle_obj_def handle_obj_body_def select_token_normalized
      format_record_def first_raised_def float_of_int_zero
      update_cache_def process_logic_and_broadcast_def and_then_def broadcast_ok
      plb_direct_def plb_open_def plb_wheel_def plb_back_def medication_lookup_def
      MEDICATION_SYMBOLS_def py_eq_int_def ROTATE_SYMBOL_def BACK_SYMBOL_def SELECT_SYMBOL_def
      add_log_def sendall_fails_def select_record_def rotate_record_def table2_def Let_def)

text \<open>
  The confirm is sent only by the rules for the rotate token: the next \<^verbatim>\<open>update\<close> of the
  rotate token, here at angle 0, finds the select token in the registry.
\<close>

lemma rotate_token0_normalized:
  "normalize_obj ''update'' rotate_token0 = Inr (Some rotate_record0)"
  by (simp add: normalize_obj_def possible_id_attrs_def rotate_token0_def
      SimulatedTuioObject_def getattr3_def getattr_default_def rotate_record0_def)

lemma select_token_near_scaled: "sqrt (2 * (1 / 50)\<^sup>2) * 25 < 2"
proof -
  have "sqrt (2 * (1 / 50)\<^sup>2) < sqrt ((2 / 25)\<^sup>2)"
    by (simp only: real_sqrt_less_iff) (simp add: power2_eq_square)
  then show ?thesis by simp
qed

lemma wheel_theta_zero: "wheel_theta (Finite 0) = Finite 0"
  by (simp add: wheel_theta_def py_float_mod_def c_fmod_def py_int_trunc_def)

lemma sector_of_angle_zero: "sector_of_frac NUM_WHEEL_SECTORS (wheel_frac (Finite 0)) = Inr 0"
  using wheel_sector_zero [of NUM_WHEEL_SECTORS]
  by (simp add: wheel_sector_def wheel_theta_zero NUM_WHEEL_SECTORS_value)

lemma float_of_zero: "float_of (PInt 0) = Inr (Finite 0)"
  by (simp add: float_of_int_def round_double_def)

lemma rotate_update_confirms:
  "sent (snd (update_tuio_object rotate_token0 table4))
     = [(7, TuioObj rotate_record0),
        (7, WheelHover 0 (Finite 0) (PFloat 0.5) (PFloat 0.5) ''Paracetamol''),
        (7, WheelSelectConfirm 0 ''Paracetamol'')]"
  using select_token_near_scaled
  by (simp add: update_tuio_object_def handle_obj_def handle_obj_body_def rotate_token0_normalized
      format_record_def first_raised_def float_of_int_def round_double_def
      update_cache_def process_logic_and_broadcast_def and_then_def broadcast_ok
      plb_direct_def plb_open_def plb_wheel_def plb_back_def medication_lookup_def
      confirm_one_def list_index_def medication_values_def wheel_theta_zero
      sector_of_angle_zero py_sub_def py_hypot_def
      MEDICATION_SYMBOLS_def py_eq_int_def ROTATE_SYMBOL_def BACK_SYMBOL_def SELECT_SYMBOL_def
      add_log_def sendall_fails_def select_record_def rotate_record_def rotate_record0_def
      table4_def Let_def PROXIMITY_THRESHOLD_def)

end
